theory Spec2Isabelle
  imports Complex_Main "HOL-Library.Sublist"
begin

section \<open>Data model of the frontend (services/api.ts, contexts/AppContext)\<close>

text \<open>
  A value of TypeScript type \<open>any\<close> (a task's \<open>result\<close>, a request body) is a JSON value.
  A number held in a field is the real it denotes; where the client computes with
  numbers (the client statistics), the arithmetic of doubles is modelled.
\<close>

datatype json =
    JNull
  | JBool bool
  | JNum real
  | JStr string
  | JArr "json list"
  | JObj "(string \<times> json) list"

text \<open>
  Interface fields that several interfaces share (\<open>id\<close>, \<open>user_id\<close>, \<open>status\<close>,
  \<open>type\<close>) carry the interface's name as a prefix, since the fields of all records live in
  one name space; \<open>T | null\<close> and an optional field are \<open>T option\<close>.
\<close>

record EmailMessage =
  email_id :: string
  email_user_id :: string
  email_client_id :: "string option"
  subject :: "string option"
  sender :: string
  recipient :: string
  body_text :: "string option"
  body_html :: "string option"
  sent_datetime :: string
  received_datetime :: "string option"
  is_read :: bool
  is_starred :: bool
  has_attachments :: bool
  labels :: "string list option"
  urgency_level :: "string option"
  sentiment_score :: "real option"
  topic_categories :: "string list option"
  is_processed :: bool
  is_analyzed :: bool

record Client =
  client_id :: string
  client_user_id :: string
  email_address :: string
  client_name :: "string option"
  organization_name :: "string option"
  business_category :: "string option"
  communication_frequency :: "string option"
  relationship_strength :: "real option"
  total_emails_received :: real
  total_emails_sent :: real
  first_interaction :: "string option"
  last_interaction :: "string option"
  priority_level :: string

record GeneratedResponse =
  response_id :: string
  original_email_id :: string
  generated_response :: string
  response_type :: string
  confidence_score :: "real option"
  relevance_score :: "real option"
  style_match_score :: "real option"
  model_used :: "string option"
  response_status :: string
  created_at :: string

record TaskStatus =
  task_id :: string
  status :: string
  result :: json
  error :: "string option"
  date_done :: "string option"
  successful :: "bool option"

datatype NotificationType = info | success | warning | error_type

record NotificationInput =
  notification_type :: NotificationType
  title :: string
  message :: string

record Notification = NotificationInput +
  notification_id :: string
  timestamp :: int
  read :: bool

record SystemHealth =
  api :: bool
  database :: bool
  vectorDb :: bool
  workers :: bool

text \<open>\<open>Partial<AppState['systemHealth']>\<close>: every field may be absent.\<close>

record SystemHealthPartial =
  api_opt :: "bool option"
  database_opt :: "bool option"
  vectorDb_opt :: "bool option"
  workers_opt :: "bool option"

datatype SelectedView = emails_view | responses_view | analytics_view | settings_view

record AppState =
  emails :: "EmailMessage list"
  selectedEmail :: "EmailMessage option"
  emailsLoading :: bool
  emailsError :: "string option"
  responses :: "GeneratedResponse list"
  responsesLoading :: bool
  responsesError :: "string option"
  clients :: "Client list"
  clientsLoading :: bool
  clientsError :: "string option"
  activeTasks :: "string \<rightharpoonup> TaskStatus"
  taskHistory :: "TaskStatus list"
  systemHealth :: SystemHealth
  sidebarOpen :: bool
  selectedView :: SelectedView
  notifications :: "Notification list"

text \<open>
  The actions of \<open>appReducer\<close>. A \<open>Partial<T>\<close> payload of an update action is the function
  \<open>\<lambda>x. {...x, ...updates}\<close> that overwrites the fields present in it. The reducer's
  \<open>ADD_NOTIFICATION\<close> branch reads \<open>Math.random()\<close> and \<open>new Date()\<close>: the two values
  it reads travel with the action.
\<close>

datatype AppAction =
    SET_EMAILS "EmailMessage list"
  | ADD_EMAIL EmailMessage
  | UPDATE_EMAIL string "EmailMessage \<Rightarrow> EmailMessage"
  | SELECT_EMAIL "EmailMessage option"
  | SET_EMAILS_LOADING bool
  | SET_EMAILS_ERROR "string option"
  | SET_RESPONSES "GeneratedResponse list"
  | ADD_RESPONSE GeneratedResponse
  | UPDATE_RESPONSE string "GeneratedResponse \<Rightarrow> GeneratedResponse"
  | SET_RESPONSES_LOADING bool
  | SET_RESPONSES_ERROR "string option"
  | SET_CLIENTS "Client list"
  | ADD_CLIENT Client
  | UPDATE_CLIENT string "Client \<Rightarrow> Client"
  | SET_CLIENTS_LOADING bool
  | SET_CLIENTS_ERROR "string option"
  | ADD_TASK TaskStatus
  | UPDATE_TASK TaskStatus
  | REMOVE_TASK string
  | CLEAR_COMPLETED_TASKS
  | UPDATE_SYSTEM_HEALTH SystemHealthPartial
  | TOGGLE_SIDEBAR
  | SET_SELECTED_VIEW SelectedView
  | ADD_NOTIFICATION NotificationInput string int
  | MARK_NOTIFICATION_READ string
  | CLEAR_NOTIFICATIONS

definition initialState :: AppState where
  "initialState =
     \<lparr> emails = [], selectedEmail = None, emailsLoading = False, emailsError = None,
       responses = [], responsesLoading = False, responsesError = None,
       clients = [], clientsLoading = False, clientsError = None,
       activeTasks = Map.empty, taskHistory = [],
       systemHealth = \<lparr> api = False, database = False, vectorDb = False, workers = False \<rparr>,
       sidebarOpen = True, selectedView = emails_view, notifications = [] \<rparr>"

definition mergeSystemHealth :: "SystemHealth \<Rightarrow> SystemHealthPartial \<Rightarrow> SystemHealth" where
  "mergeSystemHealth h p =
     \<lparr> api = (case api_opt p of None \<Rightarrow> api h | Some b \<Rightarrow> b),
       database = (case database_opt p of None \<Rightarrow> database h | Some b \<Rightarrow> b),
       vectorDb = (case vectorDb_opt p of None \<Rightarrow> vectorDb h | Some b \<Rightarrow> b),
       workers = (case workers_opt p of None \<Rightarrow> workers h | Some b \<Rightarrow> b) \<rparr>"

text \<open>The test of the \<open>UPDATE_TASK\<close> branch: \<open>status === 'SUCCESS' || status === 'FAILURE'\<close>.\<close>

definition is_finished :: "TaskStatus \<Rightarrow> bool" where
  "is_finished t \<longleftrightarrow> status t = ''SUCCESS'' \<or> status t = ''FAILURE''"

fun appReducer :: "AppState \<Rightarrow> AppAction \<Rightarrow> AppState" where
  "appReducer state (SET_EMAILS payload) = state\<lparr>emails := payload\<rparr>"
| "appReducer state (ADD_EMAIL payload) = state\<lparr>emails := payload # emails state\<rparr>"
| "appReducer state (UPDATE_EMAIL i updates) =
     state\<lparr>emails := map (\<lambda>email. if email_id email = i then updates email else email) (emails state),
           selectedEmail :=
             (case selectedEmail state of
                None \<Rightarrow> None
              | Some sel \<Rightarrow> if email_id sel = i then Some (updates sel) else Some sel)\<rparr>"
| "appReducer state (SELECT_EMAIL payload) = state\<lparr>selectedEmail := payload\<rparr>"
| "appReducer state (SET_EMAILS_LOADING payload) = state\<lparr>emailsLoading := payload\<rparr>"
| "appReducer state (SET_EMAILS_ERROR payload) = state\<lparr>emailsError := payload\<rparr>"
| "appReducer state (SET_RESPONSES payload) = state\<lparr>responses := payload\<rparr>"
| "appReducer state (ADD_RESPONSE payload) = state\<lparr>responses := payload # responses state\<rparr>"
| "appReducer state (UPDATE_RESPONSE i updates) =
     state\<lparr>responses :=
             map (\<lambda>response. if response_id response = i then updates response else response)
               (responses state)\<rparr>"
| "appReducer state (SET_RESPONSES_LOADING payload) = state\<lparr>responsesLoading := payload\<rparr>"
| "appReducer state (SET_RESPONSES_ERROR payload) = state\<lparr>responsesError := payload\<rparr>"
| "appReducer state (SET_CLIENTS payload) = state\<lparr>clients := payload\<rparr>"
| "appReducer state (ADD_CLIENT payload) = state\<lparr>clients := payload # clients state\<rparr>"
| "appReducer state (UPDATE_CLIENT i updates) =
     state\<lparr>clients :=
             map (\<lambda>client. if client_id client = i then updates client else client)
               (clients state)\<rparr>"
| "appReducer state (SET_CLIENTS_LOADING payload) = state\<lparr>clientsLoading := payload\<rparr>"
| "appReducer state (SET_CLIENTS_ERROR payload) = state\<lparr>clientsError := payload\<rparr>"
| "appReducer state (ADD_TASK payload) =
     state\<lparr>activeTasks := (activeTasks state)(task_id payload \<mapsto> payload)\<rparr>"
| "appReducer state (UPDATE_TASK payload) =
     (let updatedTasks = (activeTasks state)(task_id payload \<mapsto> payload)
      in if is_finished payload
         then state\<lparr>activeTasks := updatedTasks(task_id payload := None),
                    taskHistory := payload # take 49 (taskHistory state)\<rparr>
         else state\<lparr>activeTasks := updatedTasks\<rparr>)"
| "appReducer state (REMOVE_TASK payload) =
     state\<lparr>activeTasks := (activeTasks state)(payload := None)\<rparr>"
| "appReducer state CLEAR_COMPLETED_TASKS = state\<lparr>taskHistory := []\<rparr>"
| "appReducer state (UPDATE_SYSTEM_HEALTH payload) =
     state\<lparr>systemHealth := mergeSystemHealth (systemHealth state) payload\<rparr>"
| "appReducer state TOGGLE_SIDEBAR = state\<lparr>sidebarOpen := \<not> sidebarOpen state\<rparr>"
| "appReducer state (SET_SELECTED_VIEW payload) = state\<lparr>selectedView := payload\<rparr>"
| "appReducer state (ADD_NOTIFICATION payload rnd now) =
     state\<lparr>notifications :=
             \<lparr> notification_type = notification_type payload, title = title payload,
               message = message payload, notification_id = rnd, timestamp = now,
               read = False \<rparr> # take 99 (notifications state)\<rparr>"
| "appReducer state (MARK_NOTIFICATION_READ payload) =
     state\<lparr>notifications :=
             map (\<lambda>notif. if notification_id notif = payload then notif\<lparr>read := True\<rparr> else notif)
               (notifications state)\<rparr>"
| "appReducer state CLEAR_NOTIFICATIONS = state\<lparr>notifications := []\<rparr>"

text \<open>The state after dispatching a sequence of actions, oldest first.\<close>

definition dispatch_all :: "AppState \<Rightarrow> AppAction list \<Rightarrow> AppState" where
  "dispatch_all state acts = foldl appReducer state acts"

subsection \<open>Observing a job in the tracking state\<close>

text \<open>
  A job is observed in progress when \<open>activeTasks\<close> holds an entry for its id whose status
  is not one of the two finished ones.
\<close>

definition in_progress :: "AppState \<Rightarrow> string \<Rightarrow> bool" where
  "in_progress state t =
     (case activeTasks state t of None \<Rightarrow> False | Some ts \<Rightarrow> \<not> is_finished ts)"

text \<open>An action that writes an unfinished status for job \<open>t\<close> into \<open>activeTasks\<close>.\<close>

fun writes_unfinished :: "string \<Rightarrow> AppAction \<Rightarrow> bool" where
  "writes_unfinished t (ADD_TASK payload) = (task_id payload = t \<and> \<not> is_finished payload)"
| "writes_unfinished t (UPDATE_TASK payload) = (task_id payload = t \<and> \<not> is_finished payload)"
| "writes_unfinished t _ = False"

text \<open>A task status as the server reports it, with only id, status and error filled in.\<close>

definition task_report :: "string \<Rightarrow> string \<Rightarrow> string option \<Rightarrow> TaskStatus" where
  "task_report i s e =
     \<lparr> task_id = i, status = s, result = JNull, error = e, date_done = None,
       successful = None \<rparr>"

section \<open>Effects of the client: requests, notifications, timers\<close>

text \<open>
  What the hooks do besides updating \<open>AppState\<close> is kept in a log, oldest event first.
  The backend is the environment: the outcome of each awaited request is an input of the
  function that issues it, a rejected promise carrying \<open>error?.response?.data?.detail\<close>.
  Requests are taken one at a time, each answered before the next timer fires.
\<close>

datatype Effect =
    HttpGet string
  | HttpPost string json
  | HttpDelete string
  | Toast NotificationType string
  | ConsoleError string
  | InvalidateQueries "string list"
  | SetTimeout nat
  | SetInterval nat
  | ClearInterval

datatype 'a reply = Rejected "string option" | Resolved 'a

text \<open>
  \<open>Math.random()\<close> and \<open>new Date()\<close> as the reducer reads them: the values drawn when
  the log holds \<open>n\<close> events.
\<close>

record Env =
  random_id :: "nat \<Rightarrow> string"
  date_now :: "nat \<Rightarrow> int"

record World =
  app :: AppState
  effects :: "Effect list"

definition emit :: "Effect \<Rightarrow> World \<Rightarrow> World" where
  "emit e w = w\<lparr>effects := effects w @ [e]\<rparr>"

definition dispatch :: "AppAction \<Rightarrow> World \<Rightarrow> World" where
  "dispatch a w = w\<lparr>app := appReducer (app w) a\<rparr>"

text \<open>JavaScript's \<open>s || d\<close> on a possibly absent string: absent and empty give \<open>d\<close>.\<close>

definition or_default :: "string option \<Rightarrow> string \<Rightarrow> string" where
  "or_default v d = (case v of None \<Rightarrow> d | Some s \<Rightarrow> if s = [] then d else s)"

definition addNotification :: "Env \<Rightarrow> NotificationInput \<Rightarrow> World \<Rightarrow> World" where
  "addNotification env notification w =
     emit (Toast (notification_type notification)
             (title notification @ '': '' @ message notification))
       (dispatch (ADD_NOTIFICATION notification (random_id env (length (effects w)))
                    (date_now env (length (effects w)))) w)"

definition updateTaskStatus :: "Env \<Rightarrow> TaskStatus \<Rightarrow> World \<Rightarrow> World" where
  "updateTaskStatus env taskStatus w =
     (let w1 = dispatch (UPDATE_TASK taskStatus) w
      in if status taskStatus = ''SUCCESS'' then
           addNotification env
             \<lparr> notification_type = success, title = ''Task Completed'',
               message = ''Task '' @ take 8 (task_id taskStatus) @ '' completed successfully'' \<rparr> w1
         else if status taskStatus = ''FAILURE'' then
           addNotification env
             \<lparr> notification_type = error_type, title = ''Task Failed'',
               message = ''Task '' @ take 8 (task_id taskStatus) @ '' failed: ''
                 @ or_default (error taskStatus) ''Unknown error'' \<rparr> w1
         else w1)"

subsection \<open>ApiService: the task endpoints\<close>

definition getTaskStatus :: "string \<Rightarrow> TaskStatus reply \<Rightarrow> World \<Rightarrow> World \<times> TaskStatus reply" where
  "getTaskStatus taskId answer w = (emit (HttpGet (''/tasks/status/'' @ taskId)) w, answer)"

definition cancelTask :: "string \<Rightarrow> json reply \<Rightarrow> World \<Rightarrow> World \<times> json reply" where
  "cancelTask taskId answer w = (emit (HttpDelete (''/tasks/cancel/'' @ taskId)) w, answer)"







subsection \<open>Polling\<close>

text \<open>
  One run of a \<open>pollTask\<close> closure or of an interval callback consumes one answer of the
  backend and says whether another run is scheduled. \<open>poll_loop\<close> feeds it the answers in
  order for as long as it re-schedules itself; an exhausted list of answers leaves the
  timer pending (\<open>True\<close>), a stopped loop returns \<open>False\<close> and ignores the answers left.
\<close>

fun poll_loop :: "('a \<Rightarrow> World \<Rightarrow> World \<times> bool) \<Rightarrow> 'a list \<Rightarrow> World \<Rightarrow> World \<times> bool" where
  "poll_loop step [] w = (w, True)"
| "poll_loop step (answer # answers) w =
     (case step answer w of
        (w', again) \<Rightarrow> if again then poll_loop step answers w' else (w', False))"

text \<open>\<open>useGenerateResponse\<close>, the \<open>pollTask\<close> closure of \<open>onSuccess\<close> (useResponses.ts).\<close>

definition generate_pollTask :: "Env \<Rightarrow> string \<Rightarrow> TaskStatus reply \<Rightarrow> World \<Rightarrow> World \<times> bool" where
  "generate_pollTask env tid answer w =
     (case getTaskStatus tid answer w of
        (w1, Rejected e) \<Rightarrow> (emit (ConsoleError ''Error polling task status:'') w1, False)
      | (w1, Resolved st) \<Rightarrow>
          (let w2 = updateTaskStatus env st w1
           in if status st = ''SUCCESS'' then
                (addNotification env
                   \<lparr> notification_type = success, title = ''Response generated'',
                     message = ''AI response has been generated successfully'' \<rparr>
                   (emit (InvalidateQueries [''responses'']) w2), False)
              else if status st = ''PENDING'' \<or> status st = ''STARTED'' then
                (emit (SetTimeout 2000) w2, True)
              else if status st = ''FAILURE'' then
                (addNotification env
                   \<lparr> notification_type = error_type, title = ''Response generation failed'',
                     message = or_default (error st) ''Failed to generate AI response'' \<rparr> w2,
                 False)
              else (w2, False)))"

definition useGenerateResponse_onSuccess ::
  "Env \<Rightarrow> string \<Rightarrow> TaskStatus reply list \<Rightarrow> World \<Rightarrow> World \<times> bool" where
  "useGenerateResponse_onSuccess env tid answers w =
     poll_loop (generate_pollTask env tid) answers
       (emit (SetTimeout 1000)
          (addNotification env
             \<lparr> notification_type = info, title = ''Response generation started'',
               message = ''AI response generation in progress ('' @ take 8 tid @ ''...)'' \<rparr> w))"


text \<open>\<open>useAnalyzeEmail\<close>, which submits through \<open>submitEmailAnalysis\<close> (useEmails.ts).\<close>

definition analyze_pollTask ::
  "Env \<Rightarrow> string \<Rightarrow> string \<Rightarrow> TaskStatus reply \<Rightarrow> World \<Rightarrow> World \<times> bool" where
  "analyze_pollTask env emailId tid answer w =
     (case getTaskStatus tid answer w of
        (w1, Rejected e) \<Rightarrow> (emit (ConsoleError ''Error polling task status:'') w1, False)
      | (w1, Resolved st) \<Rightarrow>
          (let w2 = updateTaskStatus env st w1
           in if status st = ''SUCCESS'' then
                (emit (InvalidateQueries [''emails'', ''list''])
                   (emit (InvalidateQueries [''emails'', ''detail'', emailId]) w2), False)
              else if status st = ''PENDING'' \<or> status st = ''STARTED'' then
                (emit (SetTimeout 2000) w2, True)
              else (w2, False)))"


text \<open>
  \<open>ApiService.streamTaskUpdates\<close>: an interval of 2000 ms whose callback polls once;
  \<open>onUpdate\<close> is the caller's callback, taken not to throw.
\<close>

definition stream_tick ::
  "(TaskStatus \<Rightarrow> World \<Rightarrow> World) \<Rightarrow> string \<Rightarrow> TaskStatus reply \<Rightarrow> World \<Rightarrow> World \<times> bool" where
  "stream_tick onUpdate taskId answer w =
     (case getTaskStatus taskId answer w of
        (w1, Rejected e) \<Rightarrow>
          (emit ClearInterval (emit (ConsoleError ''Error polling task status:'') w1), False)
      | (w1, Resolved st) \<Rightarrow>
          (let w2 = onUpdate st w1
           in if status st = ''SUCCESS'' \<or> status st = ''FAILURE''
              then (emit ClearInterval w2, False)
              else (w2, True)))"

definition streamTaskUpdates ::
  "string \<Rightarrow> (TaskStatus \<Rightarrow> World \<Rightarrow> World) \<Rightarrow> TaskStatus reply list \<Rightarrow> World \<Rightarrow> World \<times> bool" where
  "streamTaskUpdates taskId onUpdate answers w =
     poll_loop (stream_tick onUpdate taskId) answers (emit (SetInterval 2000) w)"

text \<open>The status requests in a log, and the answers a loop has consumed.\<close>

fun is_status_request :: "Effect \<Rightarrow> bool" where
  "is_status_request (HttpGet path) = (take 14 path = ''/tasks/status/'')"
| "is_status_request _ = False"

definition status_requests :: "World \<Rightarrow> nat" where
  "status_requests w = length (filter is_status_request (effects w))"

definition initialWorld :: World where
  "initialWorld = \<lparr> app = initialState, effects = [] \<rparr>"

definition fixed_env :: Env where
  "fixed_env = \<lparr> random_id = (\<lambda>n. ''abc123xyz''), date_now = (\<lambda>n. int n) \<rparr>"

section \<open>Client statistics (hooks/useClients.ts)\<close>

text \<open>
  The statistics compute on JavaScript numbers, that is on IEEE 754 doubles: a number is
  a finite double, an infinity or \<open>NaN\<close>, and every arithmetic operation returns the
  double nearest to the exact result, ties going to the even significand. The two zeros
  are not told apart.

  \<open>binade x\<close> is the exponent of the binade of \<open>x\<close>, not below that of the subnormal
  numbers; doubles in it are the multiples of \<open>ulp x\<close>, 53 bits of significand.
\<close>

datatype number = Finite real | PosInf | NegInf | NaN

definition binade :: "real \<Rightarrow> int" where
  "binade x = max (- 1022) \<lfloor>log 2 \<bar>x\<bar>\<rfloor>"

definition ulp :: "real \<Rightarrow> real" where
  "ulp x = 2 powi (binade x - 52)"

definition round_half_even :: "real \<Rightarrow> int" where
  "round_half_even y =
     (if y - of_int \<lfloor>y\<rfloor> < 1 / 2 then \<lfloor>y\<rfloor>
      else if 1 / 2 < y - of_int \<lfloor>y\<rfloor> then \<lfloor>y\<rfloor> + 1
      else if even \<lfloor>y\<rfloor> then \<lfloor>y\<rfloor> else \<lfloor>y\<rfloor> + 1)"

definition nearest_double :: "real \<Rightarrow> real" where
  "nearest_double x = (if x = 0 then 0 else of_int (round_half_even (x / ulp x)) * ulp x)"

text \<open>The largest finite double; a result that rounds beyond it is an infinity.\<close>

definition max_double :: real where
  "max_double = (2 ^ 53 - 1) * 2 ^ 971"

definition round_to_double :: "real \<Rightarrow> number" where
  "round_to_double x =
     (if max_double < nearest_double x then PosInf
      else if nearest_double x < - max_double then NegInf
      else Finite (nearest_double x))"

text \<open>The operators \<open>+\<close>, \<open>*\<close> and \<open>/\<close> on numbers.\<close>

fun js_add :: "number \<Rightarrow> number \<Rightarrow> number" where
  "js_add (Finite a) (Finite b) = round_to_double (a + b)"
| "js_add NaN y = NaN"
| "js_add x NaN = NaN"
| "js_add PosInf NegInf = NaN"
| "js_add NegInf PosInf = NaN"
| "js_add PosInf y = PosInf"
| "js_add x PosInf = PosInf"
| "js_add NegInf y = NegInf"
| "js_add x NegInf = NegInf"

fun js_multiply :: "number \<Rightarrow> number \<Rightarrow> number" where
  "js_multiply (Finite a) (Finite b) = round_to_double (a * b)"
| "js_multiply NaN y = NaN"
| "js_multiply x NaN = NaN"
| "js_multiply PosInf (Finite b) = (if b = 0 then NaN else if 0 < b then PosInf else NegInf)"
| "js_multiply NegInf (Finite b) = (if b = 0 then NaN else if 0 < b then NegInf else PosInf)"
| "js_multiply (Finite a) PosInf = (if a = 0 then NaN else if 0 < a then PosInf else NegInf)"
| "js_multiply (Finite a) NegInf = (if a = 0 then NaN else if 0 < a then NegInf else PosInf)"
| "js_multiply PosInf PosInf = PosInf"
| "js_multiply NegInf NegInf = PosInf"
| "js_multiply PosInf NegInf = NegInf"
| "js_multiply NegInf PosInf = NegInf"

fun js_divide :: "number \<Rightarrow> number \<Rightarrow> number" where
  "js_divide (Finite a) (Finite b) =
     (if b = 0 then (if a = 0 then NaN else if 0 < a then PosInf else NegInf)
      else round_to_double (a / b))"
| "js_divide NaN y = NaN"
| "js_divide x NaN = NaN"
| "js_divide (Finite a) PosInf = Finite 0"
| "js_divide (Finite a) NegInf = Finite 0"
| "js_divide PosInf (Finite b) = (if b < 0 then NegInf else PosInf)"
| "js_divide NegInf (Finite b) = (if b < 0 then PosInf else NegInf)"
| "js_divide x y = NaN"

text \<open>
  \<open>Math.round\<close> rounds to the nearest integer, halves upwards; the integer is a double
  whenever its argument is one.
\<close>

definition Math_round :: "real \<Rightarrow> int" where
  "Math_round x = \<lfloor>x + 1 / 2\<rfloor>"

definition js_Math_round :: "number \<Rightarrow> number" where
  "js_Math_round x = (case x of Finite r \<Rightarrow> Finite (of_int (Math_round r)) | other \<Rightarrow> other)"

text \<open>
  The clock and the date parser of the runtime: \<open>now_ms\<close> is \<open>new Date().getTime()\<close>,
  \<open>parse_date s\<close> the time value of \<open>new Date(s)\<close>, \<open>None\<close> for an invalid date, which
  compares false with everything.
\<close>

record DateEnv =
  now_ms :: int
  parse_date :: "string \<Rightarrow> int option"

record ClientStats =
  totalClients :: nat
  activeClients :: nat
  highPriorityClients :: nat
  averageRelationshipStrength :: number
  topBusinessCategories :: "(string \<times> nat) list"
  recentInteractions :: nat

text \<open>
  \<open>client.last_interaction ? new Date(client.last_interaction) : null\<close>, then
  \<open>lastInteraction && lastInteraction > cutoff\<close>: null and the empty string give no date.
\<close>

definition interacted_after :: "DateEnv \<Rightarrow> int \<Rightarrow> Client \<Rightarrow> bool" where
  "interacted_after d cutoff client =
     (case last_interaction client of
        None \<Rightarrow> False
      | Some s \<Rightarrow>
          if s = [] then False
          else (case parse_date d s of None \<Rightarrow> False | Some t \<Rightarrow> t > cutoff))"

text \<open>
  \<open>client.relationship_strength || 0\<close>: the field holds the number as the response of
  the backend writes it, which the client reads as the nearest double; null gives 0.
\<close>

definition strength_or_zero :: "Client \<Rightarrow> number" where
  "strength_or_zero client =
     (case relationship_strength client of None \<Rightarrow> Finite 0 | Some x \<Rightarrow> round_to_double x)"

text \<open>
  The object that counts the categories, as the list of its own properties in creation
  order: \<open>acc[c] = (acc[c] || 0) + 1\<close>. Category names that are members of
  \<open>Object.prototype\<close> are outside this model.
\<close>

fun count_category :: "(string \<times> nat) list \<Rightarrow> string \<Rightarrow> (string \<times> nat) list" where
  "count_category [] c = [(c, 1)]"
| "count_category ((k, n) # acc) c =
     (if k = c then (k, n + 1) # acc else (k, n) # count_category acc c)"

definition businessCategories :: "Client list \<Rightarrow> (string \<times> nat) list" where
  "businessCategories clientList =
     foldl (\<lambda>acc client.
        case business_category client of
          None \<Rightarrow> acc
        | Some c \<Rightarrow> if c = [] then acc else count_category acc c) [] clientList"

text \<open>
  \<open>Object.entries\<close> lists the keys that are array indices first, in ascending numeric
  order, then the other keys in creation order.
\<close>

definition digit_value :: "char \<Rightarrow> nat" where
  "digit_value c = of_char c - 48"

definition nat_of_digits :: "string \<Rightarrow> nat" where
  "nat_of_digits s = foldl (\<lambda>n c. 10 * n + digit_value c) 0 s"

definition is_array_index :: "string \<Rightarrow> bool" where
  "is_array_index s \<longleftrightarrow>
     s \<noteq> [] \<and> list_all (\<lambda>c. 48 \<le> (of_char c :: nat) \<and> (of_char c :: nat) \<le> 57) s \<and>
     (s = ''0'' \<or> hd s \<noteq> CHR ''0'') \<and> nat_of_digits s \<le> 4294967294"

definition Object_entries :: "(string \<times> nat) list \<Rightarrow> (string \<times> nat) list" where
  "Object_entries obj =
     sort_key (\<lambda>(k, n). nat_of_digits k) (filter (\<lambda>(k, n). is_array_index k) obj)
     @ filter (\<lambda>(k, n). \<not> is_array_index k) obj"

text \<open>\<open>.sort(([,a], [,b]) => b - a).slice(0, 5)\<close>: a stable sort, largest count first.\<close>

definition top_categories :: "(string \<times> nat) list \<Rightarrow> (string \<times> nat) list" where
  "top_categories obj = take 5 (sort_key (\<lambda>(k, n). - int n) (Object_entries obj))"

definition useClientStats :: "DateEnv \<Rightarrow> Client list \<Rightarrow> ClientStats" where
  "useClientStats d clientList =
     (if length clientList = 0 then
        \<lparr> totalClients = 0, activeClients = 0, highPriorityClients = 0,
          averageRelationshipStrength = Finite 0, topBusinessCategories = [],
          recentInteractions = 0 \<rparr>
      else
        (let thirtyDaysAgo = now_ms d - 30 * 24 * 60 * 60 * 1000;
             activeClientList = filter (interacted_after d thirtyDaysAgo) clientList;
             highPriorityClientList = filter (\<lambda>client. priority_level client = ''high'') clientList;
             avgRelationshipStrength =
               js_divide
                 (foldl (\<lambda>sum client. js_add sum (strength_or_zero client)) (Finite 0)
                    clientList)
                 (Finite (real (length clientList)));
             sevenDaysAgo = now_ms d - 7 * 24 * 60 * 60 * 1000
         in \<lparr> totalClients = length clientList,
              activeClients = length activeClientList,
              highPriorityClients = length highPriorityClientList,
              averageRelationshipStrength =
                js_divide (js_Math_round (js_multiply avgRelationshipStrength (Finite 100)))
                  (Finite 100),
              topBusinessCategories = top_categories (businessCategories clientList),
              recentInteractions = length (filter (interacted_after d sevenDaysAgo) clientList) \<rparr>))"




definition example_client :: "string \<Rightarrow> real option \<Rightarrow> string option \<Rightarrow> Client" where
  "example_client i strength category =
     \<lparr> client_id = i, client_user_id = ''u1'', email_address = i @ ''@example.com'',
       client_name = None, organization_name = None, business_category = category,
       communication_frequency = None, relationship_strength = strength,
       total_emails_received = 0, total_emails_sent = 0, first_interaction = None,
       last_interaction = None, priority_level = ''high'' \<rparr>"

definition example_dates :: DateEnv where
  "example_dates = \<lparr> now_ms = 1700000000000, parse_date = (\<lambda>s. None) \<rparr>"

section \<open>Generated responses on the dashboard (components/Dashboard.tsx)\<close>

text \<open>
  The three captions the dashboard chooses from by \<open>response_type\<close>, the percentage of
  the confidence badge, \<open>Math.round((response.confidence_score || 0) * 100)\<close>, and the
  value of the progress bar.
\<close>

datatype Caption = ProfessionalCaption | FriendlyCaption | GenericCaption

definition response_caption :: "GeneratedResponse \<Rightarrow> Caption" where
  "response_caption response =
     (if response_type response = ''professional'' then ProfessionalCaption
      else if response_type response = ''friendly'' then FriendlyCaption
      else GenericCaption)"

definition confidence_or_zero :: "GeneratedResponse \<Rightarrow> real" where
  "confidence_or_zero response =
     (case confidence_score response of None \<Rightarrow> 0 | Some c \<Rightarrow> c)"

definition confidence_badge :: "GeneratedResponse \<Rightarrow> int" where
  "confidence_badge response = Math_round (confidence_or_zero response * 100)"

definition confidence_progress :: "GeneratedResponse \<Rightarrow> real" where
  "confidence_progress response = confidence_or_zero response * 100"

text \<open>The four strategy kinds of the specification's \<open>GeneratedDraft\<close>, as type names.\<close>

definition strategy_kinds :: "string set" where
  "strategy_kinds = {''RAG'', ''Rule'', ''Hybrid'', ''Template''}"

definition example_response :: GeneratedResponse where
  "example_response =
     \<lparr> response_id = ''r1'', original_email_id = ''e1'',
       generated_response = ''Thank you for your message.'', response_type = ''professional'',
       confidence_score = None, relevance_score = None, style_match_score = None,
       model_used = None, response_status = ''draft'', created_at = ''2024-01-01T00:00:00Z'' \<rparr>"

section \<open>The job registry and the generation engine of the backend\<close>

text \<open>
  Modelled from the spec: the job registry and the response generation engine of the
  Python backend (services/background_tasks.py, services/response_generator.py), which
  the frontend above only calls over HTTP. The definitions of this section follow
  sections 3, 4 and 5 of the specification; what the specification leaves open is a
  parameter.
\<close>

datatype JobKind = Analyze | Vectorize | GenerateResponse | ProfileUpdate

datatype JobState = PENDING | RUNNING | SUCCEEDED | FAILED | CANCELLED

datatype ErrorKind =
  ValidationError | RetrievalUnavailable | NotFound | Timeout | CancelledError | ExecutionError

datatype Strategy = RAG | Rule | Hybrid | Template

text \<open>Modelled from the spec: the GenerationRequest of section 3; the body may be missing.\<close>

record GenerationRequest =
  request_sender :: string
  request_subject :: string
  request_body :: "string option"
  thread_identifier :: string
  style_profile_ref :: string
  request_instructions :: "string option"
  max_context_budget :: "nat option"

text \<open>Modelled from the spec: one entry of a RetrievedContext (section 3).\<close>

record Passage =
  passage_text :: string
  source_identifier :: string
  similarity :: real

text \<open>Modelled from the spec: the GeneratedDraft of section 3.\<close>

record GeneratedDraft =
  draft_text :: string
  strategy :: Strategy
  confidence :: real
  relevance :: "real option"
  style_match :: "real option"
  context_sources :: "string list"

text \<open>
  Modelled from the spec: the ResponseRule of section 3, with the confidence that
  section 4.2 fixes per rule.
\<close>

record ResponseRule =
  trigger_patterns :: "string list"
  response_template :: string
  required_context_tags :: "string list"
  formality_level :: real
  rule_confidence :: real

text \<open>Modelled from the spec: the StyleProfile of section 2, a precomputed summary.\<close>

record StyleProfile =
  formality_score :: real
  signature_patterns :: "string list"

text \<open>
  Modelled from the spec: what section 4.2 and the open question of section 9 leave to
  the implementer, as parameters of the engine: the two thresholds, the composition of a
  draft from passages, style adaptation (adapted text and style-match score), the
  combination of relevance and style-match into a confidence, rule matching, placeholder
  substitution, the hybrid merge and its weight, the checks of quality validation, and
  the text and confidence of the Template fallback.
\<close>

record EngineConfig =
  similarity_threshold :: real
  acceptance_threshold :: real
  compose :: "GenerationRequest \<Rightarrow> Passage list \<Rightarrow> string"
  adapt_style :: "StyleProfile \<Rightarrow> string \<Rightarrow> string \<times> real"
  combine :: "real \<Rightarrow> real option \<Rightarrow> real"
  rule_matches :: "ResponseRule \<Rightarrow> GenerationRequest \<Rightarrow> bool"
  substitute :: "ResponseRule \<Rightarrow> GenerationRequest \<Rightarrow> string"
  merge_hybrid :: "ResponseRule \<Rightarrow> GenerationRequest \<Rightarrow> Passage list \<Rightarrow> string"
  hybrid_weight :: real
  has_placeholder :: "string \<Rightarrow> bool"
  min_length :: nat
  max_length :: nat
  template_text :: string
  template_confidence :: real

text \<open>
  Modelled from the spec: quality validation (section 4.2): minimum non-emptiness, no
  unresolved template placeholder, length bounds.
\<close>

definition quality_ok :: "EngineConfig \<Rightarrow> string \<Rightarrow> bool" where
  "quality_ok cfg txt \<longleftrightarrow>
     txt \<noteq> [] \<and> \<not> has_placeholder cfg txt \<and>
     min_length cfg \<le> length txt \<and> length txt \<le> max_length cfg"

definition example_request :: GenerationRequest where
  "example_request =
     \<lparr> request_sender = ''client@example.com'', request_subject = ''Deadline'',
       request_body = Some ''Can we move the deadline to Friday?'', thread_identifier = ''th1'',
       style_profile_ref = ''u1'', request_instructions = None, max_context_budget = None \<rparr>"

definition example_config :: EngineConfig where
  "example_config =
     \<lparr> similarity_threshold = 7 / 10, acceptance_threshold = 6 / 10,
       compose = (\<lambda>req ctx. concat (map passage_text ctx)),
       adapt_style = (\<lambda>p txt. (txt, formality_score p)),
       combine = (\<lambda>rel sm. case sm of None \<Rightarrow> rel | Some s \<Rightarrow> (rel + s) / 2),
       rule_matches = (\<lambda>r req. False),
       substitute = (\<lambda>r req. response_template r),
       merge_hybrid = (\<lambda>r req ctx. response_template r),
       hybrid_weight = 1 / 2,
       has_placeholder = (\<lambda>txt. CHR ''{'' \<in> set txt),
       min_length = 1, max_length = 5000,
       template_text = ''Thank you for your message. I will get back to you shortly.'',
       template_confidence = 3 / 10 \<rparr>"

text \<open>
  Modelled from the spec: the engine is built on a configuration whose Template text
  passes quality validation ("cascading down to Template, which by construction always
  passes", section 4.2); no other configuration makes an engine.
\<close>

typedef Engine = "{cfg :: EngineConfig. quality_ok cfg (template_text cfg)}"
  morphisms config_of make_engine
proof
  show "example_config \<in> {cfg. quality_ok cfg (template_text cfg)}"
    by (simp add: quality_ok_def example_config_def)
qed

definition example_engine :: Engine where
  "example_engine = make_engine example_config"

text \<open>
  Modelled from the spec: style adaptation, applied after every strategy but Template;
  a missing profile means no adaptation and no style-match score (section 6).
\<close>

definition style_adaptation ::
  "EngineConfig \<Rightarrow> StyleProfile option \<Rightarrow> string \<Rightarrow> string \<times> real option" where
  "style_adaptation cfg profile txt =
     (case profile of
        None \<Rightarrow> (txt, None)
      | Some p \<Rightarrow> (case adapt_style cfg p txt of (adapted, score) \<Rightarrow> (adapted, Some score)))"

text \<open>
  Modelled from the spec: the passages that clear the similarity threshold; an
  unavailable retriever is not fatal and yields none.
\<close>

definition usable_context :: "EngineConfig \<Rightarrow> ErrorKind + Passage list \<Rightarrow> Passage list" where
  "usable_context cfg retrieved =
     (case retrieved of
        Inl e \<Rightarrow> []
      | Inr passages \<Rightarrow> filter (\<lambda>p. similarity_threshold cfg \<le> similarity p) passages)"

text \<open>
  Modelled from the spec: the RAG strategy: with at least one usable passage, a composed
  and style-adapted draft whose relevance is the mean similarity of the passages used.
\<close>

definition rag_strategy ::
  "EngineConfig \<Rightarrow> StyleProfile option \<Rightarrow> GenerationRequest \<Rightarrow> Passage list
     \<Rightarrow> GeneratedDraft option" where
  "rag_strategy cfg profile req ctx =
     (if ctx = [] then None
      else
        (let rel = sum_list (map similarity ctx) / real (length ctx)
         in case style_adaptation cfg profile (compose cfg req ctx) of
              (txt, sm) \<Rightarrow>
                Some \<lparr> draft_text = txt, strategy = RAG, confidence = combine cfg rel sm,
                       relevance = Some rel, style_match = sm,
                       context_sources = map source_identifier ctx \<rparr>))"

text \<open>Modelled from the spec: the first rule, in priority order, whose patterns match.\<close>

definition first_matching_rule ::
  "EngineConfig \<Rightarrow> ResponseRule list \<Rightarrow> GenerationRequest \<Rightarrow> ResponseRule option" where
  "first_matching_rule cfg rules req = find (\<lambda>r. rule_matches cfg r req) rules"

text \<open>
  Modelled from the spec: the Rule strategy: placeholders substituted from the message,
  the rule's fixed confidence, no relevance score.
\<close>

definition rule_strategy ::
  "EngineConfig \<Rightarrow> StyleProfile option \<Rightarrow> GenerationRequest \<Rightarrow> ResponseRule option
     \<Rightarrow> GeneratedDraft option" where
  "rule_strategy cfg profile req matched =
     (case matched of
        None \<Rightarrow> None
      | Some r \<Rightarrow>
          (case style_adaptation cfg profile (substitute cfg r req) of
             (txt, sm) \<Rightarrow>
               Some \<lparr> draft_text = txt, strategy = Rule, confidence = rule_confidence r,
                      relevance = None, style_match = sm, context_sources = [] \<rparr>))"

text \<open>
  Modelled from the spec: the Hybrid strategy, attempted only when RAG produced some
  context and a rule matched; its confidence is the weighted combination of the two.
\<close>

definition hybrid_strategy ::
  "EngineConfig \<Rightarrow> StyleProfile option \<Rightarrow> GenerationRequest \<Rightarrow> Passage list
     \<Rightarrow> ResponseRule option \<Rightarrow> GeneratedDraft option" where
  "hybrid_strategy cfg profile req ctx matched =
     (case (rag_strategy cfg profile req ctx, matched) of
        (Some rag, Some r) \<Rightarrow>
          (case style_adaptation cfg profile (merge_hybrid cfg r req ctx) of
             (txt, sm) \<Rightarrow>
               Some \<lparr> draft_text = txt, strategy = Hybrid,
                      confidence = hybrid_weight cfg * confidence rag
                        + (1 - hybrid_weight cfg) * rule_confidence r,
                      relevance = relevance rag, style_match = sm,
                      context_sources = map source_identifier ctx \<rparr>)
      | _ \<Rightarrow> None)"

text \<open>
  Modelled from the spec: the Template fallback: a generic acknowledgment with no
  context dependency and a fixed low confidence; it always succeeds.
\<close>

definition template_fallback :: "Engine \<Rightarrow> GeneratedDraft" where
  "template_fallback engine =
     \<lparr> draft_text = template_text (config_of engine), strategy = Template,
       confidence = template_confidence (config_of engine), relevance = None,
       style_match = None, context_sources = [] \<rparr>"

text \<open>
  Modelled from the spec: a strategy's draft is taken when it clears the acceptance
  threshold and passes quality validation; otherwise the next strategy is attempted.
\<close>

definition accepted :: "EngineConfig \<Rightarrow> GeneratedDraft option \<Rightarrow> GeneratedDraft option" where
  "accepted cfg attempt =
     (case attempt of
        None \<Rightarrow> None
      | Some d \<Rightarrow>
          if acceptance_threshold cfg \<le> confidence d \<and> quality_ok cfg (draft_text d)
          then Some d else None)"

text \<open>
  Modelled from the spec: the engine's entry point (section 4.2): a request without a
  body is the one fatal error; otherwise RAG, Rule, Hybrid and Template are tried in this
  fixed order and the first accepted draft is returned.
\<close>

definition generate_draft ::
  "Engine \<Rightarrow> (GenerationRequest \<Rightarrow> ErrorKind + Passage list) \<Rightarrow> StyleProfile option
     \<Rightarrow> ResponseRule list \<Rightarrow> GenerationRequest \<Rightarrow> ErrorKind + GeneratedDraft" where
  "generate_draft engine retriever profile rules req =
     (case request_body req of
        None \<Rightarrow> Inl ValidationError
      | Some body \<Rightarrow>
          (let cfg = config_of engine;
               ctx = usable_context cfg (retriever req);
               matched = first_matching_rule cfg rules req
           in case accepted cfg (rag_strategy cfg profile req ctx) of
                Some d \<Rightarrow> Inr d
              | None \<Rightarrow>
                  (case accepted cfg (rule_strategy cfg profile req matched) of
                     Some d \<Rightarrow> Inr d
                   | None \<Rightarrow>
                       (case accepted cfg (hybrid_strategy cfg profile req ctx matched) of
                          Some d \<Rightarrow> Inr d
                        | None \<Rightarrow> Inr (template_fallback engine)))))"

subsection \<open>The job registry\<close>

datatype Payload = DraftPayload GeneratedDraft | OtherPayload json

datatype SubmitPayload = GenerationPayload GenerationRequest | PlainPayload json

text \<open>Modelled from the spec: the Job of section 3; times are clock readings.\<close>

record Job =
  job_id :: nat
  job_kind :: JobKind
  job_state :: JobState
  submitted_at :: nat
  started_at :: "nat option"
  completed_at :: "nat option"
  job_result :: "Payload option"
  job_error :: "ErrorKind option"
  cancellation_flag :: bool

text \<open>
  Modelled from the spec: the registry's job table, the source of fresh job ids, and
  its two configured durations (maximum run time, retention window).
\<close>

record Registry =
  jobs :: "nat \<rightharpoonup> Job"
  next_id :: nat
  max_duration :: nat
  retention :: nat

definition is_terminal :: "JobState \<Rightarrow> bool" where
  "is_terminal s \<longleftrightarrow> s = SUCCEEDED \<or> s = FAILED \<or> s = CANCELLED"

text \<open>
  Modelled from the spec: a payload is well-formed when it has the shape its kind
  expects; GenerateResponse requires a GenerationRequest with a body.
\<close>

definition well_formed :: "JobKind \<Rightarrow> SubmitPayload \<Rightarrow> bool" where
  "well_formed k p =
     (case (k, p) of
        (GenerateResponse, GenerationPayload req) \<Rightarrow> request_body req \<noteq> None
      | (GenerateResponse, PlainPayload j) \<Rightarrow> False
      | (_, GenerationPayload req) \<Rightarrow> False
      | (_, PlainPayload j) \<Rightarrow> True)"

text \<open>
  Modelled from the spec: Submit creates the job in PENDING and returns its id at once;
  an invalid payload is rejected with ValidationError and no job is created.
\<close>

definition Submit :: "Registry \<Rightarrow> JobKind \<Rightarrow> SubmitPayload \<Rightarrow> nat \<Rightarrow> ErrorKind + (nat \<times> Registry)" where
  "Submit reg k p now =
     (if well_formed k p then
        Inr (next_id reg,
             reg\<lparr>jobs := (jobs reg)(next_id reg \<mapsto>
                    \<lparr> job_id = next_id reg, job_kind = k, job_state = PENDING,
                      submitted_at = now, started_at = None, completed_at = None,
                      job_result = None, job_error = None, cancellation_flag = False \<rparr>),
                 next_id := Suc (next_id reg)\<rparr>)
      else Inl ValidationError)"

text \<open>
  Modelled from the spec: the snapshot GetStatus returns. Once a cancellation has been
  accepted, polls report CANCELLED and no result, also while the worker has not yet
  reached its next suspension point.
\<close>

definition snapshot :: "Job \<Rightarrow> Job" where
  "snapshot j =
     (if cancellation_flag j \<and> \<not> is_terminal (job_state j)
      then j\<lparr>job_state := CANCELLED, job_result := None\<rparr> else j)"

definition GetStatus :: "Registry \<Rightarrow> nat \<Rightarrow> ErrorKind + Job" where
  "GetStatus reg jid = (case jobs reg jid of None \<Rightarrow> Inl NotFound | Some j \<Rightarrow> Inr (snapshot j))"

text \<open>
  Modelled from the spec: Cancel moves a PENDING job to CANCELLED, signals a RUNNING
  job's worker through the cancellation flag, fails with NotFound for an unknown job and
  is a no-op on a terminal one.
\<close>

definition Cancel :: "Registry \<Rightarrow> nat \<Rightarrow> nat \<Rightarrow> ErrorKind + Registry" where
  "Cancel reg jid now =
     (case jobs reg jid of
        None \<Rightarrow> Inl NotFound
      | Some j \<Rightarrow>
          if is_terminal (job_state j) then Inr reg
          else if job_state j = PENDING then
            Inr (reg\<lparr>jobs := (jobs reg)(jid \<mapsto>
                   j\<lparr>job_state := CANCELLED, completed_at := Some now,
                     cancellation_flag := True\<rparr>)\<rparr>)
          else Inr (reg\<lparr>jobs := (jobs reg)(jid \<mapsto> j\<lparr>cancellation_flag := True\<rparr>)\<rparr>))"

text \<open>Modelled from the spec: a worker takes a PENDING job and makes it RUNNING.\<close>

definition start_job :: "Registry \<Rightarrow> nat \<Rightarrow> nat \<Rightarrow> Registry" where
  "start_job reg jid now =
     (case jobs reg jid of
        None \<Rightarrow> reg
      | Some j \<Rightarrow>
          if job_state j = PENDING
          then reg\<lparr>jobs := (jobs reg)(jid \<mapsto> j\<lparr>job_state := RUNNING, started_at := Some now\<rparr>)\<rparr>
          else reg)"

datatype Outcome = Succeeded Payload | Failed ErrorKind

text \<open>
  Modelled from the spec: the internal finalize operation, the single terminal write of
  a RUNNING job: a no-op on a terminal job (the first terminal write wins); CANCELLED with
  the result discarded when the cancellation flag is set; else the worker's outcome.
\<close>

definition finalize :: "Registry \<Rightarrow> nat \<Rightarrow> Outcome \<Rightarrow> nat \<Rightarrow> Registry" where
  "finalize reg jid outcome now =
     (case jobs reg jid of
        None \<Rightarrow> reg
      | Some j \<Rightarrow>
          if job_state j \<noteq> RUNNING then reg
          else if cancellation_flag j then
            reg\<lparr>jobs := (jobs reg)(jid \<mapsto>
              j\<lparr>job_state := CANCELLED, completed_at := Some now, job_result := None\<rparr>)\<rparr>
          else
            (case outcome of
               Succeeded payload \<Rightarrow>
                 reg\<lparr>jobs := (jobs reg)(jid \<mapsto>
                   j\<lparr>job_state := SUCCEEDED, completed_at := Some now,
                     job_result := Some payload\<rparr>)\<rparr>
             | Failed e \<Rightarrow>
                 reg\<lparr>jobs := (jobs reg)(jid \<mapsto>
                   j\<lparr>job_state := FAILED, completed_at := Some now, job_error := Some e\<rparr>)\<rparr>))"

text \<open>
  Modelled from the spec: a job running longer than the maximum duration is forcibly
  finalized as FAILED with a Timeout descriptor.
\<close>

definition enforce_timeout :: "Registry \<Rightarrow> nat \<Rightarrow> nat \<Rightarrow> Registry" where
  "enforce_timeout reg jid now =
     (case jobs reg jid of
        None \<Rightarrow> reg
      | Some j \<Rightarrow>
          (case started_at j of
             None \<Rightarrow> reg
           | Some t \<Rightarrow> if t + max_duration reg < now then finalize reg jid (Failed Timeout) now else reg))"

text \<open>
  Modelled from the spec: Evict removes the jobs whose terminal timestamp is older than
  the retention window.
\<close>

definition Evict :: "Registry \<Rightarrow> nat \<Rightarrow> Registry" where
  "Evict reg now =
     reg\<lparr>jobs := (\<lambda>jid.
        case jobs reg jid of
          None \<Rightarrow> None
        | Some j \<Rightarrow>
            (case completed_at j of
               None \<Rightarrow> Some j
             | Some t \<Rightarrow> if is_terminal (job_state j) \<and> t + retention reg < now then None else Some j))\<rparr>"

text \<open>The calls that reach the registry, and a sequence of them applied in order.\<close>

datatype RegistryCall =
    SubmitCall JobKind SubmitPayload nat
  | CancelCall nat nat
  | StartCall nat nat
  | FinalizeCall nat Outcome nat
  | TimeoutCall nat nat
  | EvictCall nat

fun apply_call :: "Registry \<Rightarrow> RegistryCall \<Rightarrow> Registry" where
  "apply_call reg (SubmitCall k p now) =
     (case Submit reg k p now of Inl e \<Rightarrow> reg | Inr (jid, reg') \<Rightarrow> reg')"
| "apply_call reg (CancelCall jid now) =
     (case Cancel reg jid now of Inl e \<Rightarrow> reg | Inr reg' \<Rightarrow> reg')"
| "apply_call reg (StartCall jid now) = start_job reg jid now"
| "apply_call reg (FinalizeCall jid outcome now) = finalize reg jid outcome now"
| "apply_call reg (TimeoutCall jid now) = enforce_timeout reg jid now"
| "apply_call reg (EvictCall now) = Evict reg now"

fun is_evict :: "RegistryCall \<Rightarrow> bool" where
  "is_evict (EvictCall now) = True"
| "is_evict _ = False"

definition apply_calls :: "Registry \<Rightarrow> RegistryCall list \<Rightarrow> Registry" where
  "apply_calls reg calls = foldl apply_call reg calls"

text \<open>
  Modelled from the spec: the worker wrapper around the engine: an error of the
  execution becomes a FAILED outcome, a draft a SUCCEEDED one.
\<close>

definition execute_generation ::
  "Engine \<Rightarrow> (GenerationRequest \<Rightarrow> ErrorKind + Passage list) \<Rightarrow> StyleProfile option
     \<Rightarrow> ResponseRule list \<Rightarrow> GenerationRequest \<Rightarrow> Outcome" where
  "execute_generation engine retriever profile rules req =
     (case generate_draft engine retriever profile rules req of
        Inl e \<Rightarrow> Failed e
      | Inr d \<Rightarrow> Succeeded (DraftPayload d))"

text \<open>
  Modelled from the spec: a job's life after Submit is a sequence of registry calls made
  by callers, workers and housekeeping in any order. A call agrees with the worker of job
  \<open>jid\<close> reporting \<open>outcome\<close> when it is not a finalization of that job with another
  outcome; cancellations, timeouts, evictions and calls for other jobs are unrestricted.
\<close>

fun reports :: "nat \<Rightarrow> Outcome \<Rightarrow> RegistryCall \<Rightarrow> bool" where
  "reports jid outcome (FinalizeCall jid' outcome' now) = (jid' \<noteq> jid \<or> outcome' = outcome)"
| "reports jid outcome c = True"

text \<open>
  A call that leaves job \<open>jid\<close> to its worker: it is no cancellation of the job, no
  timeout enforced on it and no eviction.
\<close>

fun undisturbed :: "nat \<Rightarrow> RegistryCall \<Rightarrow> bool" where
  "undisturbed jid (CancelCall jid' now) = (jid' \<noteq> jid)"
| "undisturbed jid (TimeoutCall jid' now) = (jid' \<noteq> jid)"
| "undisturbed jid (EvictCall now) = False"
| "undisturbed jid c = True"

text \<open>
  Modelled from the spec: what sections 3, 4.1 and 5 allow of a generation job whose
  worker produced draft \<open>d\<close>: it is evicted; or not yet terminal, with neither result nor
  error; or SUCCEEDED with that draft; or FAILED by the timeout; or CANCELLED, with
  neither draft nor error.
\<close>

definition generation_job_view :: "Registry \<Rightarrow> nat \<Rightarrow> GeneratedDraft \<Rightarrow> bool" where
  "generation_job_view reg jid d \<longleftrightarrow>
     jid < next_id reg \<and>
     (case jobs reg jid of
        None \<Rightarrow> True
      | Some j \<Rightarrow>
          ((job_state j = PENDING \<or> job_state j = RUNNING) \<and>
             job_result j = None \<and> job_error j = None) \<or>
          (job_state j = SUCCEEDED \<and> job_result j = Some (DraftPayload d) \<and>
             job_error j = None) \<or>
          (job_state j = FAILED \<and> job_result j = None \<and> job_error j = Some Timeout) \<or>
          (job_state j = CANCELLED \<and> job_result j = None \<and> job_error j = None))"

text \<open>
  The job is held in one of the given states, uncancelled and without an error, its
  result being the draft \<open>d\<close> exactly when it has SUCCEEDED.
\<close>

definition job_at :: "Registry \<Rightarrow> nat \<Rightarrow> GeneratedDraft \<Rightarrow> JobState list \<Rightarrow> bool" where
  "job_at reg jid d states \<longleftrightarrow>
     (case jobs reg jid of
        None \<Rightarrow> False
      | Some j \<Rightarrow>
          job_state j \<in> set states \<and> \<not> cancellation_flag j \<and> job_error j = None \<and>
          job_result j = (if job_state j = SUCCEEDED then Some (DraftPayload d) else None))"


definition empty_registry :: Registry where
  "empty_registry = \<lparr> jobs = Map.empty, next_id = 0, max_duration = 300, retention = 3600 \<rparr>"

definition running_registry :: Registry where
  "running_registry =
     apply_calls empty_registry [SubmitCall Analyze (PlainPayload JNull) 0, StartCall 0 1]"

text \<open>
  What holds of a job from the moment its cancellation was accepted while it was
  running: it is gone, or CANCELLED without a result, or still RUNNING with the flag set.
\<close>

definition cancelled_view :: "Registry \<Rightarrow> nat \<Rightarrow> bool" where
  "cancelled_view reg jid \<longleftrightarrow>
     jid < next_id reg \<and>
     (case jobs reg jid of
        None \<Rightarrow> True
      | Some j \<Rightarrow>
          (job_state j = CANCELLED \<and> job_result j = None) \<or>
          (job_state j = RUNNING \<and> cancellation_flag j))"

text \<open>The retriever of the full-fallback scenario: unavailable for every request.\<close>

definition unavailable_retriever :: "GenerationRequest \<Rightarrow> ErrorKind + Passage list" where
  "unavailable_retriever req = Inl RetrievalUnavailable"


section \<open>Bounded client-side tracking state\<close>

lemma appReducer_taskHistory_bound:
  "length (taskHistory state) \<le> 50 \<Longrightarrow> length (taskHistory (appReducer state a)) \<le> 50"
  by (cases a) (simp_all add: Let_def)

lemma appReducer_notifications_bound:
  "length (notifications state) \<le> 100 \<Longrightarrow> length (notifications (appReducer state a)) \<le> 100"
  by (cases a) (simp_all add: Let_def)

lemma dispatch_all_bounds:
  "length (taskHistory state) \<le> 50 \<and> length (notifications state) \<le> 100 \<Longrightarrow>
   length (taskHistory (dispatch_all state acts)) \<le> 50 \<and>
   length (notifications (dispatch_all state acts)) \<le> 100"
  unfolding dispatch_all_def
proof (induction acts arbitrary: state)
  case Nil
  then show ?case by simp
next
  case (Cons a acts)
  have "length (taskHistory (appReducer state a)) \<le> 50 \<and>
        length (notifications (appReducer state a)) \<le> 100"
    using Cons.prems appReducer_taskHistory_bound appReducer_notifications_bound by blast
  from Cons.IH [OF this] show ?case by simp
qed

text \<open>
  C9. In every state reached from \<open>initialState\<close> by a sequence of reducer actions, the
  task history holds at most 50 entries and the notification list at most 100.
\<close>

theorem reachable_state_bounded:
  "length (taskHistory (dispatch_all initialState acts)) \<le> 50 \<and>
   length (notifications (dispatch_all initialState acts)) \<le> 100"
proof -
  have "length (taskHistory initialState) \<le> 50 \<and> length (notifications initialState) \<le> 100"
    by (simp add: initialState_def)
  then show ?thesis by (rule dispatch_all_bounds)
qed

section \<open>The transition graph in the tracking state\<close>

lemma appReducer_keeps_not_in_progress:
  "\<not> in_progress state t \<Longrightarrow> \<not> writes_unfinished t a \<Longrightarrow> \<not> in_progress (appReducer state a) t"
  by (cases a) (auto simp: in_progress_def Let_def split: option.splits if_splits)

lemma dispatch_all_keeps_not_in_progress:
  "\<not> in_progress state t \<Longrightarrow> \<forall>a\<in>set acts. \<not> writes_unfinished t a \<Longrightarrow>
   \<not> in_progress (dispatch_all state acts) t"
  unfolding dispatch_all_def
proof (induction acts arbitrary: state)
  case Nil
  then show ?case by simp
next
  case (Cons a acts)
  from Cons.prems have "\<not> in_progress (appReducer state a) t"
    by (simp add: appReducer_keeps_not_in_progress)
  with Cons.prems Cons.IH show ?case by simp
qed

lemma finished_update_not_in_progress:
  "is_finished payload \<Longrightarrow> \<not> in_progress (appReducer state (UPDATE_TASK payload)) (task_id payload)"
  by (simp add: in_progress_def Let_def)

text \<open>
  C1, as stated, fails: after job \<open>t1\<close> has been recorded with \<open>SUCCESS\<close>, an
  \<open>UPDATE_TASK\<close> carrying \<open>STARTED\<close> for the same id puts the job back into
  \<open>activeTasks\<close> as \<open>STARTED\<close>, while the history still shows it as \<open>SUCCESS\<close>.
\<close>

theorem finished_job_observed_started_again:
  "taskHistory (dispatch_all initialState
      [ADD_TASK (task_report ''t1'' ''PENDING'' None),
       UPDATE_TASK (task_report ''t1'' ''SUCCESS'' None)])
     = [task_report ''t1'' ''SUCCESS'' None] \<and>
   activeTasks (dispatch_all initialState
      [ADD_TASK (task_report ''t1'' ''PENDING'' None),
       UPDATE_TASK (task_report ''t1'' ''SUCCESS'' None),
       UPDATE_TASK (task_report ''t1'' ''STARTED'' None)]) ''t1''
     = Some (task_report ''t1'' ''STARTED'' None) \<and>
   in_progress (dispatch_all initialState
      [ADD_TASK (task_report ''t1'' ''PENDING'' None),
       UPDATE_TASK (task_report ''t1'' ''SUCCESS'' None),
       UPDATE_TASK (task_report ''t1'' ''STARTED'' None)]) ''t1''"
  by (simp add: dispatch_all_def initialState_def task_report_def is_finished_def
      in_progress_def Let_def)

lemma unfinished_write_in_progress:
  assumes "\<not> is_finished later"
  shows "in_progress (appReducer state (UPDATE_TASK later)) (task_id later) \<and>
         activeTasks (appReducer state (UPDATE_TASK later)) (task_id later) = Some later \<and>
         in_progress (appReducer state (ADD_TASK later)) (task_id later) \<and>
         activeTasks (appReducer state (ADD_TASK later)) (task_id later) = Some later"
  using assms by (simp add: in_progress_def Let_def)

text \<open>
  C1, amended. A finished \<open>UPDATE_TASK\<close> (status \<open>SUCCESS\<close> or \<open>FAILURE\<close>) removes the job
  from \<open>activeTasks\<close> and records it at the head of \<open>taskHistory\<close>. Whatever actions
  follow, the job is not observed in progress again unless one of them is an \<open>ADD_TASK\<close>
  or \<open>UPDATE_TASK\<close> that itself carries an unfinished status for that job id; and such
  an action, at any later point, does put the finished job back into \<open>activeTasks\<close> with
  the status it carries: the reducer stores what it is handed and checks no transition.
\<close>

theorem finished_job_stays_finished_unless_rewritten:
  assumes "is_finished payload"
  shows "activeTasks (appReducer state (UPDATE_TASK payload)) (task_id payload) = None \<and>
         taskHistory (appReducer state (UPDATE_TASK payload))
           = payload # take 49 (taskHistory state) \<and>
         ((\<forall>a\<in>set acts. \<not> writes_unfinished (task_id payload) a) \<longrightarrow>
            \<not> in_progress (dispatch_all (appReducer state (UPDATE_TASK payload)) acts)
                (task_id payload)) \<and>
         (\<not> is_finished later \<and> task_id later = task_id payload \<longrightarrow>
            in_progress
              (appReducer (dispatch_all (appReducer state (UPDATE_TASK payload)) acts)
                 (UPDATE_TASK later)) (task_id payload) \<and>
            activeTasks
              (appReducer (dispatch_all (appReducer state (UPDATE_TASK payload)) acts)
                 (UPDATE_TASK later)) (task_id payload) = Some later \<and>
            in_progress
              (appReducer (dispatch_all (appReducer state (UPDATE_TASK payload)) acts)
                 (ADD_TASK later)) (task_id payload) \<and>
            activeTasks
              (appReducer (dispatch_all (appReducer state (UPDATE_TASK payload)) acts)
                 (ADD_TASK later)) (task_id payload) = Some later)"
proof -
  have removed: "activeTasks (appReducer state (UPDATE_TASK payload)) (task_id payload) = None"
    using assms by (simp add: Let_def)
  have recorded: "taskHistory (appReducer state (UPDATE_TASK payload))
      = payload # take 49 (taskHistory state)"
    using assms by (simp add: Let_def)
  have stays: "\<not> in_progress (dispatch_all (appReducer state (UPDATE_TASK payload)) acts)
      (task_id payload)"
    if "\<forall>a\<in>set acts. \<not> writes_unfinished (task_id payload) a"
    using assms that finished_update_not_in_progress dispatch_all_keeps_not_in_progress
    by blast
  have rewritten: "in_progress
              (appReducer (dispatch_all (appReducer state (UPDATE_TASK payload)) acts)
                 (UPDATE_TASK later)) (task_id payload) \<and>
            activeTasks
              (appReducer (dispatch_all (appReducer state (UPDATE_TASK payload)) acts)
                 (UPDATE_TASK later)) (task_id payload) = Some later \<and>
            in_progress
              (appReducer (dispatch_all (appReducer state (UPDATE_TASK payload)) acts)
                 (ADD_TASK later)) (task_id payload) \<and>
            activeTasks
              (appReducer (dispatch_all (appReducer state (UPDATE_TASK payload)) acts)
                 (ADD_TASK later)) (task_id payload) = Some later"
    if "\<not> is_finished later" "task_id later = task_id payload"
    using unfinished_write_in_progress
      [OF that(1), of "dispatch_all (appReducer state (UPDATE_TASK payload)) acts"]
    unfolding that(2) .
  from removed recorded stays rewritten show ?thesis by blast
qed

theorem finished_job_stays_finished_unless_rewritten_witness:
  "activeTasks (appReducer (appReducer initialState (ADD_TASK (task_report ''t1'' ''STARTED'' None)))
      (UPDATE_TASK (task_report ''t1'' ''FAILURE'' None))) ''t1'' = None \<and>
   taskHistory (appReducer (appReducer initialState (ADD_TASK (task_report ''t1'' ''STARTED'' None)))
      (UPDATE_TASK (task_report ''t1'' ''FAILURE'' None))) = [task_report ''t1'' ''FAILURE'' None] \<and>
   \<not> in_progress
       (dispatch_all
          (appReducer (appReducer initialState (ADD_TASK (task_report ''t1'' ''STARTED'' None)))
             (UPDATE_TASK (task_report ''t1'' ''FAILURE'' None)))
          [ADD_TASK (task_report ''t2'' ''PENDING'' None), REMOVE_TASK ''t1'',
           UPDATE_TASK (task_report ''t1'' ''SUCCESS'' None), CLEAR_COMPLETED_TASKS])
       ''t1'' \<and>
   activeTasks
     (appReducer
        (dispatch_all
           (appReducer (appReducer initialState (ADD_TASK (task_report ''t1'' ''STARTED'' None)))
              (UPDATE_TASK (task_report ''t1'' ''FAILURE'' None)))
           [ADD_TASK (task_report ''t2'' ''PENDING'' None), REMOVE_TASK ''t1'',
            UPDATE_TASK (task_report ''t1'' ''SUCCESS'' None), CLEAR_COMPLETED_TASKS])
        (UPDATE_TASK (task_report ''t1'' ''PENDING'' None))) ''t1''
     = Some (task_report ''t1'' ''PENDING'' None)"
proof -
  have fin: "is_finished (task_report ''t1'' ''FAILURE'' None)"
    by (simp add: is_finished_def task_report_def)
  have rest: "\<forall>a\<in>set [ADD_TASK (task_report ''t2'' ''PENDING'' None), REMOVE_TASK ''t1'',
           UPDATE_TASK (task_report ''t1'' ''SUCCESS'' None), CLEAR_COMPLETED_TASKS].
        \<not> writes_unfinished (task_id (task_report ''t1'' ''FAILURE'' None)) a"
    by (simp add: is_finished_def task_report_def)
  have later: "\<not> is_finished (task_report ''t1'' ''PENDING'' None) \<and>
      task_id (task_report ''t1'' ''PENDING'' None) = task_id (task_report ''t1'' ''FAILURE'' None)"
    by (simp add: is_finished_def task_report_def)
  have id: "task_id (task_report ''t1'' ''FAILURE'' None) = ''t1''"
    by (simp add: task_report_def)
  have hist: "take 49 (taskHistory (appReducer initialState
      (ADD_TASK (task_report ''t1'' ''STARTED'' None)))) = []"
    by (simp add: initialState_def)
  from fin rest later finished_job_stays_finished_unless_rewritten
    [OF fin, where acts = "[ADD_TASK (task_report ''t2'' ''PENDING'' None), REMOVE_TASK ''t1'',
           UPDATE_TASK (task_report ''t1'' ''SUCCESS'' None), CLEAR_COMPLETED_TASKS]"
       and later = "task_report ''t1'' ''PENDING'' None"
       and state = "appReducer initialState (ADD_TASK (task_report ''t1'' ''STARTED'' None))"]
  show ?thesis unfolding id hist by blast
qed

section \<open>Finalizing a job twice\<close>

text \<open>
  C3, as stated, fails: a second finished update of job \<open>t1\<close> with the other outcome is
  stored in front of the first, so the history changes and holds both outcomes.
\<close>

theorem second_outcome_is_recorded:
  "taskHistory (dispatch_all initialState
      [UPDATE_TASK (task_report ''t1'' ''SUCCESS'' None),
       UPDATE_TASK (task_report ''t1'' ''FAILURE'' (Some ''boom''))])
     = [task_report ''t1'' ''FAILURE'' (Some ''boom''), task_report ''t1'' ''SUCCESS'' None] \<and>
   taskHistory (dispatch_all initialState
      [UPDATE_TASK (task_report ''t1'' ''SUCCESS'' None),
       UPDATE_TASK (task_report ''t1'' ''FAILURE'' (Some ''boom''))])
     \<noteq> taskHistory (dispatch_all initialState
      [UPDATE_TASK (task_report ''t1'' ''SUCCESS'' None)])"
  by (simp add: dispatch_all_def initialState_def task_report_def is_finished_def Let_def)

text \<open>
  C3, amended. Applying a finished \<open>UPDATE_TASK\<close> a second time to the same job is not an
  error and not a no-op: the second outcome is put at the head of \<open>taskHistory\<close>, directly
  in front of the first one, which is kept, and the job is absent from \<open>activeTasks\<close>.
\<close>

theorem second_finalization_prepends:
  assumes "is_finished first" and "is_finished second" and "task_id second = task_id first"
  shows "taskHistory (appReducer (appReducer state (UPDATE_TASK first)) (UPDATE_TASK second))
           = second # first # take 48 (taskHistory state) \<and>
         activeTasks (appReducer (appReducer state (UPDATE_TASK first)) (UPDATE_TASK second))
           (task_id first) = None"
proof -
  have "take 49 (first # take 49 (taskHistory state)) = first # take 48 (taskHistory state)"
    by (simp add: take_Cons' min_def)
  with assms show ?thesis by (simp add: Let_def)
qed

theorem second_finalization_prepends_witness:
  "taskHistory (appReducer (appReducer initialState
        (UPDATE_TASK (task_report ''t1'' ''SUCCESS'' None)))
        (UPDATE_TASK (task_report ''t1'' ''FAILURE'' (Some ''boom''))))
     = [task_report ''t1'' ''FAILURE'' (Some ''boom''), task_report ''t1'' ''SUCCESS'' None] \<and>
   activeTasks (appReducer (appReducer initialState
        (UPDATE_TASK (task_report ''t1'' ''SUCCESS'' None)))
        (UPDATE_TASK (task_report ''t1'' ''FAILURE'' (Some ''boom'')))) ''t1'' = None"
proof -
  have f1: "is_finished (task_report ''t1'' ''SUCCESS'' None)"
    by (simp add: is_finished_def task_report_def)
  have f2: "is_finished (task_report ''t1'' ''FAILURE'' (Some ''boom''))"
    by (simp add: is_finished_def task_report_def)
  have same: "task_id (task_report ''t1'' ''FAILURE'' (Some ''boom''))
      = task_id (task_report ''t1'' ''SUCCESS'' None)"
    by (simp add: task_report_def)
  have id: "task_id (task_report ''t1'' ''SUCCESS'' None) = ''t1''"
    by (simp add: task_report_def)
  have hist: "taskHistory initialState = []"
    by (simp add: initialState_def)
  from second_finalization_prepends [OF f1 f2 same, of initialState]
  show ?thesis unfolding id hist by simp
qed

section \<open>The polling loops\<close>

lemma effects_emit: "effects (emit e w) = effects w @ [e]"
  by (simp add: emit_def)

lemma effects_dispatch: "effects (dispatch a w) = effects w"
  by (simp add: dispatch_def)

lemma effects_addNotification:
  "effects (addNotification env n w)
     = effects w @ [Toast (notification_type n) (title n @ '': '' @ message n)]"
  by (simp add: addNotification_def effects_emit effects_dispatch)

lemma notifications_emit: "notifications (app (emit e w)) = notifications (app w)"
  by (simp add: emit_def)

lemma notifications_dispatch_update:
  "notifications (app (dispatch (UPDATE_TASK st) w)) = notifications (app w)"
  by (simp add: dispatch_def Let_def)

lemma notifications_addNotification:
  "notifications (app (addNotification env n w)) =
     \<lparr> notification_type = notification_type n, title = title n, message = message n,
       notification_id = random_id env (length (effects w)),
       timestamp = date_now env (length (effects w)), read = False \<rparr>
     # take 99 (notifications (app w))"
  by (simp add: addNotification_def dispatch_def notifications_emit)

lemmas client_simps =
  effects_emit effects_dispatch effects_addNotification notifications_emit
  notifications_dispatch_update

lemma notifications_updateTaskStatus_other:
  "status st \<noteq> ''SUCCESS'' \<Longrightarrow> status st \<noteq> ''FAILURE'' \<Longrightarrow>
   notifications (app (updateTaskStatus env st w)) = notifications (app w)"
  by (simp add: updateTaskStatus_def Let_def client_simps)


text \<open>
  The \<open>pollTask\<close> closures schedule another run exactly on \<open>PENDING\<close> and \<open>STARTED\<close>; the
  interval of \<open>streamTaskUpdates\<close> stays armed on every status but \<open>SUCCESS\<close> and
  \<open>FAILURE\<close>.
\<close>

lemma generate_pollTask_repolls_iff:
  "snd (generate_pollTask env tid answer w) \<longleftrightarrow>
     (\<exists>st. answer = Resolved st \<and> (status st = ''PENDING'' \<or> status st = ''STARTED''))"
  by (cases answer) (auto simp: generate_pollTask_def getTaskStatus_def Let_def)

lemma analyze_pollTask_repolls_iff:
  "snd (analyze_pollTask env emailId tid answer w) \<longleftrightarrow>
     (\<exists>st. answer = Resolved st \<and> (status st = ''PENDING'' \<or> status st = ''STARTED''))"
  by (cases answer) (auto simp: analyze_pollTask_def getTaskStatus_def Let_def)

lemma stream_tick_repolls_iff:
  "snd (stream_tick onUpdate taskId answer w) \<longleftrightarrow>
     (\<exists>st. answer = Resolved st \<and> status st \<noteq> ''SUCCESS'' \<and> status st \<noteq> ''FAILURE'')"
  by (cases answer) (auto simp: stream_tick_def getTaskStatus_def Let_def)

lemma stream_loop_never_stops:
  assumes "status st \<noteq> ''SUCCESS''" and "status st \<noteq> ''FAILURE''"
  shows "snd (poll_loop (stream_tick onUpdate taskId) (replicate n (Resolved st)) w)"
proof (induction n arbitrary: w)
  case 0
  show ?case by simp
next
  case (Suc n)
  have "stream_tick onUpdate taskId (Resolved st) w
      = (onUpdate st (emit (HttpGet (''/tasks/status/'' @ taskId)) w), True)"
    using assms by (simp add: stream_tick_def getTaskStatus_def)
  with Suc.IH show ?case by simp
qed

text \<open>
  C2 at the failing input: a task whose status is reported as \<open>REVOKED\<close> (cancelled).
  \<open>streamTaskUpdates\<close> has polled three times after three such answers and its interval
  is still armed, where the \<open>pollTask\<close> closure stops at the first.
\<close>

theorem streamTaskUpdates_polls_on_after_revoked:
  "snd (streamTaskUpdates ''t1'' (\<lambda>st. dispatch (UPDATE_TASK st))
          (replicate 3 (Resolved (task_report ''t1'' ''REVOKED'' None))) initialWorld) \<and>
   status_requests (fst (streamTaskUpdates ''t1'' (\<lambda>st. dispatch (UPDATE_TASK st))
          (replicate 3 (Resolved (task_report ''t1'' ''REVOKED'' None))) initialWorld)) = 3 \<and>
   \<not> snd (generate_pollTask fixed_env ''t1'' (Resolved (task_report ''t1'' ''REVOKED'' None))
          initialWorld)"
  by (simp add: streamTaskUpdates_def stream_tick_def getTaskStatus_def emit_def dispatch_def
      task_report_def initialWorld_def initialState_def is_finished_def status_requests_def
      generate_pollTask_def updateTaskStatus_def Let_def numeral_3_eq_3)

section \<open>What a poll delivers to the caller\<close>

text \<open>
  C7, as stated, fails: when the first status request is rejected, or when it reports
  \<open>REVOKED\<close>, the loop of \<open>useGenerateResponse\<close> has stopped and the only notification
  is the one that announced the start.
\<close>

theorem polling_stops_without_outcome:
  "\<not> snd (useGenerateResponse_onSuccess fixed_env ''t1'' [Rejected None] initialWorld) \<and>
   map title (notifications (app (fst (useGenerateResponse_onSuccess fixed_env ''t1''
      [Rejected None] initialWorld)))) = [''Response generation started''] \<and>
   \<not> snd (useGenerateResponse_onSuccess fixed_env ''t1''
      [Resolved (task_report ''t1'' ''REVOKED'' None)] initialWorld) \<and>
   map title (notifications (app (fst (useGenerateResponse_onSuccess fixed_env ''t1''
      [Resolved (task_report ''t1'' ''REVOKED'' None)] initialWorld))))
     = [''Response generation started'']"
  by (simp add: useGenerateResponse_onSuccess_def generate_pollTask_def getTaskStatus_def
      emit_def dispatch_def task_report_def initialWorld_def initialState_def is_finished_def
      addNotification_def updateTaskStatus_def Let_def fixed_env_def)

text \<open>
  C7, amended. A poll of a generation job that reports \<open>SUCCESS\<close> delivers a success
  notification and one that reports \<open>FAILURE\<close> an error notification carrying the task's
  error text (or a default text), and polling stops; a poll that reports \<open>PENDING\<close> or
  \<open>STARTED\<close> schedules the next one and notifies nothing; a poll that reports any other
  status, or whose request is rejected, stops the polling with no notification, a
  rejected request leaving a console error only.
\<close>

theorem generate_pollTask_outcomes:
  "(status st = ''SUCCESS'' \<longrightarrow>
      \<not> snd (generate_pollTask env tid (Resolved st) w) \<and>
      notification_type (hd (notifications (app (fst (generate_pollTask env tid (Resolved st) w)))))
        = success \<and>
      title (hd (notifications (app (fst (generate_pollTask env tid (Resolved st) w)))))
        = ''Response generated'') \<and>
   (status st = ''FAILURE'' \<longrightarrow>
      \<not> snd (generate_pollTask env tid (Resolved st) w) \<and>
      notification_type (hd (notifications (app (fst (generate_pollTask env tid (Resolved st) w)))))
        = error_type \<and>
      message (hd (notifications (app (fst (generate_pollTask env tid (Resolved st) w)))))
        = or_default (error st) ''Failed to generate AI response'') \<and>
   (status st = ''PENDING'' \<or> status st = ''STARTED'' \<longrightarrow>
      snd (generate_pollTask env tid (Resolved st) w) \<and>
      notifications (app (fst (generate_pollTask env tid (Resolved st) w))) = notifications (app w)) \<and>
   (status st \<noteq> ''SUCCESS'' \<and> status st \<noteq> ''FAILURE'' \<and> status st \<noteq> ''PENDING'' \<and>
    status st \<noteq> ''STARTED'' \<longrightarrow>
      \<not> snd (generate_pollTask env tid (Resolved st) w) \<and>
      notifications (app (fst (generate_pollTask env tid (Resolved st) w))) = notifications (app w)) \<and>
   \<not> snd (generate_pollTask env tid (Rejected detail) w) \<and>
   notifications (app (fst (generate_pollTask env tid (Rejected detail) w))) = notifications (app w) \<and>
   last (effects (fst (generate_pollTask env tid (Rejected detail) w)))
     = ConsoleError ''Error polling task status:''"
proof -
  have rej: "generate_pollTask env tid (Rejected detail) w =
      (emit (ConsoleError ''Error polling task status:'')
         (emit (HttpGet (''/tasks/status/'' @ tid)) w), False)"
    by (simp add: generate_pollTask_def getTaskStatus_def)
  have res: "generate_pollTask env tid (Resolved st) w =
      (let w2 = updateTaskStatus env st (emit (HttpGet (''/tasks/status/'' @ tid)) w)
       in if status st = ''SUCCESS'' then
            (addNotification env
               \<lparr> notification_type = success, title = ''Response generated'',
                 message = ''AI response has been generated successfully'' \<rparr>
               (emit (InvalidateQueries [''responses'']) w2), False)
          else if status st = ''PENDING'' \<or> status st = ''STARTED'' then
            (emit (SetTimeout 2000) w2, True)
          else if status st = ''FAILURE'' then
            (addNotification env
               \<lparr> notification_type = error_type, title = ''Response generation failed'',
                 message = or_default (error st) ''Failed to generate AI response'' \<rparr> w2,
             False)
          else (w2, False))"
    by (simp add: generate_pollTask_def getTaskStatus_def)
  show ?thesis
    unfolding rej res
    by (auto simp: Let_def notifications_addNotification notifications_updateTaskStatus_other
        client_simps)
qed

theorem generate_pollTask_outcomes_witness:
  "title (hd (notifications (app (fst (generate_pollTask fixed_env ''t1''
      (Resolved (task_report ''t1'' ''SUCCESS'' None)) initialWorld))))) = ''Response generated'' \<and>
   message (hd (notifications (app (fst (generate_pollTask fixed_env ''t1''
      (Resolved (task_report ''t1'' ''FAILURE'' (Some ''boom''))) initialWorld))))) = ''boom'' \<and>
   snd (generate_pollTask fixed_env ''t1''
      (Resolved (task_report ''t1'' ''STARTED'' None)) initialWorld) \<and>
   \<not> snd (generate_pollTask fixed_env ''t1''
      (Resolved (task_report ''t1'' ''REVOKED'' None)) initialWorld) \<and>
   notifications (app (fst (generate_pollTask fixed_env ''t1''
      (Resolved (task_report ''t1'' ''REVOKED'' None)) initialWorld))) = []"
proof -
  have s1: "status (task_report ''t1'' ''SUCCESS'' None) = ''SUCCESS''"
    by (simp add: task_report_def)
  have s2: "status (task_report ''t1'' ''FAILURE'' (Some ''boom'')) = ''FAILURE''"
    by (simp add: task_report_def)
  have s3: "status (task_report ''t1'' ''STARTED'' None) = ''PENDING'' \<or>
      status (task_report ''t1'' ''STARTED'' None) = ''STARTED''"
    by (simp add: task_report_def)
  have s4: "status (task_report ''t1'' ''REVOKED'' None) \<noteq> ''SUCCESS'' \<and>
      status (task_report ''t1'' ''REVOKED'' None) \<noteq> ''FAILURE'' \<and>
      status (task_report ''t1'' ''REVOKED'' None) \<noteq> ''PENDING'' \<and>
      status (task_report ''t1'' ''REVOKED'' None) \<noteq> ''STARTED''"
    by (simp add: task_report_def)
  have e2: "or_default (error (task_report ''t1'' ''FAILURE'' (Some ''boom'')))
      ''Failed to generate AI response'' = ''boom''"
    by (simp add: task_report_def or_default_def)
  have n0: "notifications (app initialWorld) = []"
    by (simp add: initialWorld_def initialState_def)
  from s1 generate_pollTask_outcomes
    [where st = "task_report ''t1'' ''SUCCESS'' None" and env = fixed_env and tid = "''t1''"
       and w = initialWorld]
  have c1: "title (hd (notifications (app (fst (generate_pollTask fixed_env ''t1''
      (Resolved (task_report ''t1'' ''SUCCESS'' None)) initialWorld))))) = ''Response generated''"
    by blast
  from s2 generate_pollTask_outcomes
    [where st = "task_report ''t1'' ''FAILURE'' (Some ''boom'')" and env = fixed_env
       and tid = "''t1''" and w = initialWorld]
  have c2: "message (hd (notifications (app (fst (generate_pollTask fixed_env ''t1''
      (Resolved (task_report ''t1'' ''FAILURE'' (Some ''boom''))) initialWorld))))) = ''boom''"
    unfolding e2 by blast
  from s3 generate_pollTask_outcomes
    [where st = "task_report ''t1'' ''STARTED'' None" and env = fixed_env and tid = "''t1''"
       and w = initialWorld]
  have c3: "snd (generate_pollTask fixed_env ''t1''
      (Resolved (task_report ''t1'' ''STARTED'' None)) initialWorld)"
    by blast
  from s4 generate_pollTask_outcomes
    [where st = "task_report ''t1'' ''REVOKED'' None" and env = fixed_env and tid = "''t1''"
       and w = initialWorld]
  have c4: "\<not> snd (generate_pollTask fixed_env ''t1''
      (Resolved (task_report ''t1'' ''REVOKED'' None)) initialWorld) \<and>
   notifications (app (fst (generate_pollTask fixed_env ''t1''
      (Resolved (task_report ''t1'' ''REVOKED'' None)) initialWorld))) = []"
    unfolding n0 by blast
  from c1 c2 c3 c4 show ?thesis by blast
qed

section \<open>Submitting a job\<close>















section \<open>Confidence and strategy of a generated response\<close>

lemma Math_round_mono: "x \<le> y \<Longrightarrow> Math_round x \<le> Math_round y"
  unfolding Math_round_def by (simp add: floor_mono)

text \<open>
  C5, as stated, fails: a \<open>GeneratedResponse\<close> may carry no confidence score and a
  \<open>response_type\<close> outside the four strategy kinds; the dashboard shows such a response
  under the caption for \<open>professional\<close> with a confidence of 0 percent.
\<close>

theorem response_without_score_or_strategy:
  "confidence_score example_response = None \<and>
   response_type example_response \<notin> strategy_kinds \<and>
   response_caption example_response = ProfessionalCaption \<and>
   confidence_badge example_response = 0"
  by (simp add: example_response_def strategy_kinds_def response_caption_def
      confidence_badge_def confidence_or_zero_def Math_round_def)

text \<open>
  C5, amended. The confidence score of a \<open>GeneratedResponse\<close> may be null; the dashboard
  reads a null score as 0, so the confidence it shows is always present, and it lies
  between 0 and 100 percent whenever the score is null or lies in [0,1]. The
  \<open>response_type\<close> is a free string: the dashboard tells \<open>professional\<close> and \<open>friendly\<close>
  apart and shows every other value under the generic caption.
\<close>

theorem displayed_confidence_and_caption:
  "(confidence_score response = None \<longrightarrow>
      confidence_badge response = 0 \<and> confidence_progress response = 0) \<and>
   (confidence_score response = Some c \<and> 0 \<le> c \<and> c \<le> 1 \<longrightarrow>
      0 \<le> confidence_badge response \<and> confidence_badge response \<le> 100 \<and>
      0 \<le> confidence_progress response \<and> confidence_progress response \<le> 100) \<and>
   (response_caption response = ProfessionalCaption
      \<longleftrightarrow> response_type response = ''professional'') \<and>
   (response_caption response = FriendlyCaption \<longleftrightarrow> response_type response = ''friendly'') \<and>
   (response_caption response = GenericCaption \<longleftrightarrow>
      response_type response \<noteq> ''professional'' \<and> response_type response \<noteq> ''friendly'')"
proof -
  have null: "confidence_badge response = 0 \<and> confidence_progress response = 0"
    if "confidence_score response = None"
    using that
    by (simp add: confidence_badge_def confidence_progress_def confidence_or_zero_def
        Math_round_def)
  have range: "0 \<le> confidence_badge response \<and> confidence_badge response \<le> 100 \<and>
      0 \<le> confidence_progress response \<and> confidence_progress response \<le> 100"
    if "confidence_score response = Some c" "0 \<le> c" "c \<le> 1"
  proof -
    have lo: "Math_round 0 \<le> Math_round (c * 100)"
      using that by (intro Math_round_mono) simp
    have hi: "Math_round (c * 100) \<le> Math_round 100"
      using that by (intro Math_round_mono) simp
    have "Math_round 0 = 0" "Math_round 100 = 100"
      by (simp_all add: Math_round_def)
    with lo hi that show ?thesis
      by (simp add: confidence_badge_def confidence_progress_def confidence_or_zero_def)
  qed
  have caps: "(response_caption response = ProfessionalCaption
      \<longleftrightarrow> response_type response = ''professional'') \<and>
   (response_caption response = FriendlyCaption \<longleftrightarrow> response_type response = ''friendly'') \<and>
   (response_caption response = GenericCaption \<longleftrightarrow>
      response_type response \<noteq> ''professional'' \<and> response_type response \<noteq> ''friendly'')"
    by (simp add: response_caption_def)
  from null range caps show ?thesis by blast
qed

theorem displayed_confidence_and_caption_witness:
  "confidence_badge example_response = 0 \<and>
   0 \<le> confidence_badge (example_response\<lparr>confidence_score := Some (87 / 100)\<rparr>) \<and>
   confidence_badge (example_response\<lparr>confidence_score := Some (87 / 100)\<rparr>) \<le> 100 \<and>
   response_caption example_response = ProfessionalCaption"
proof -
  have h1: "confidence_score example_response = None"
    by (simp add: example_response_def)
  have h2: "confidence_score (example_response\<lparr>confidence_score := Some (87 / 100)\<rparr>)
      = Some (87 / 100) \<and> (0::real) \<le> 87 / 100 \<and> (87 / 100 :: real) \<le> 1"
    by simp
  have h3: "response_type example_response = ''professional''"
    by (simp add: example_response_def)
  from h1 h3 displayed_confidence_and_caption [where response = example_response]
  have c1: "confidence_badge example_response = 0 \<and>
      response_caption example_response = ProfessionalCaption"
    by blast
  from h2 displayed_confidence_and_caption
    [where response = "example_response\<lparr>confidence_score := Some (87 / 100)\<rparr>"
       and c = "87 / 100"]
  have c2: "0 \<le> confidence_badge (example_response\<lparr>confidence_score := Some (87 / 100)\<rparr>) \<and>
      confidence_badge (example_response\<lparr>confidence_score := Some (87 / 100)\<rparr>) \<le> 100"
    by blast
  from c1 c2 show ?thesis by blast
qed

section \<open>Client statistics\<close>

subsection \<open>Rounding to doubles\<close>


lemma floor_log2_eqI:
  assumes "2 powi e \<le> x" and "x < 2 powi (e + 1)"
  shows "\<lfloor>log 2 x\<rfloor> = e"
proof -
  have pos: "0 < x"
    using assms(1) zero_less_power_int [of "2::real" e] by linarith
  have a: "(2::real) powr (real_of_int e) = 2 powi e"
    by (rule powr_real_of_int') simp_all
  have b: "(2::real) powr (real_of_int e + 1) = 2 powi (e + 1)"
    using powr_real_of_int' [of 2 "e + 1"] by simp
  show ?thesis
    using floor_log_eq_powr_iff [of x 2 e] pos assms a b by simp
qed

lemma binade_eqI:
  assumes "2 powi e \<le> \<bar>x\<bar>" and "\<bar>x\<bar> < 2 powi (e + 1)" and "- 1022 \<le> e"
  shows "binade x = e"
  using floor_log2_eqI [OF assms(1,2)] assms(3) by (simp add: binade_def)




lemma ulp_pos: "0 < ulp x"
  by (simp add: ulp_def)

lemma round_half_even_of_int: "round_half_even (of_int m) = m"
  by (simp add: round_half_even_def)








lemma nearest_double_exact:
  assumes "x = of_int m * ulp x"
  shows "nearest_double x = x"
proof (cases "x = 0")
  case True
  then show ?thesis by (simp add: nearest_double_def)
next
  case False
  have "x / ulp x = of_int m"
    using assms ulp_pos [of x] by (metis nonzero_mult_div_cancel_right less_irrefl)
  then show ?thesis
    using assms False by (simp add: nearest_double_def round_half_even_of_int)
qed







subsection \<open>The average strength\<close>

lemma nearest_double_0: "nearest_double 0 = 0"
  by (simp add: nearest_double_def)







text \<open>An example of the category ranking, array-index keys first among equal counts.\<close>

lemma top_categories_example:
  "top_categories (businessCategories
      [example_client ''a'' (Some 1) (Some ''tech''), example_client ''b'' None (Some ''7''),
       example_client ''c'' None (Some ''tech''), example_client ''d'' None (Some ''10''),
       example_client ''e'' None (Some ''07''), example_client ''f'' None (Some []),
       example_client ''g'' None (Some ''3'')])
     = [(''tech'', 2), (''3'', 1), (''7'', 1), (''10'', 1), (''07'', 1)]"
  by (simp add: top_categories_def businessCategories_def example_client_def Object_entries_def
      is_array_index_def nat_of_digits_def digit_value_def)

subsection \<open>Evaluating the rounding\<close>













lemma nearest_double_power_of_two:
  assumes "- 1022 \<le> e"
  shows "nearest_double (2 powi e) = 2 powi e"
proof (rule nearest_double_exact [where m = "2 ^ 52"])
  have "binade (2 powi e) = e"
  proof (rule binade_eqI)
    show "2 powi e \<le> \<bar>2 powi e :: real\<bar>" by simp
    show "\<bar>2 powi e :: real\<bar> < 2 powi (e + 1)"
      by (simp add: power_int_add)
    show "- 1022 \<le> e" by (rule assms)
  qed
  then have u: "ulp (2 powi e) = 2 powi (e - 52)"
    by (simp add: ulp_def)
  have "(2::real) powi e = 2 powi (52 + (e - 52))"
    by simp
  also have "\<dots> = 2 powi 52 * 2 powi (e - 52)"
    by (rule power_int_add) simp
  finally have "(2::real) powi e = 2 powi 52 * 2 powi (e - 52)" .
  then show "(2::real) powi e = real_of_int (2 ^ 52) * ulp (2 powi e)"
    unfolding u by simp
qed

lemma sum_overflows:
  assumes "e = 1023"
  shows "js_add (js_add (Finite 0) (round_to_double (2 powi e))) (round_to_double (2 powi e))
     = PosInf"
proof -
  define big :: real where "big = 2 powi e"
  define top :: real where "top = 2 powi (e - 52)"
  have "(2::real) powi e = 2 powi (52 + (e - 52))"
    by simp
  also have "\<dots> = 2 powi 52 * 2 powi (e - 52)"
    by (rule power_int_add) simp
  finally have big: "big = 2 ^ 52 * top"
    by (simp add: big_def top_def)
  have twice: "2 * big = 2 powi (e + 1)"
    by (simp add: big_def power_int_add)
  have twice': "2 * big = 2 ^ 53 * top"
    by (simp add: big)
  have top_pos: "0 < top" by (simp add: top_def)
  have m: "max_double = (2 ^ 53 - 1) * top"
    unfolding max_double_def top_def assms by simp
  have n1: "nearest_double big = big"
    unfolding big_def by (rule nearest_double_power_of_two) (simp add: assms)
  have n2: "nearest_double (2 * big) = 2 * big"
    unfolding twice by (rule nearest_double_power_of_two) (simp add: assms)
  have le: "big \<le> max_double" "- max_double \<le> big"
    using top_pos unfolding big m by simp_all
  have lt: "max_double < 2 * big"
    using top_pos unfolding twice' m by simp
  have r1: "round_to_double big = Finite big"
    using le by (simp add: round_to_double_def n1)
  have r2: "round_to_double (2 * big) = PosInf"
    using lt by (simp add: round_to_double_def n2)
  have "js_add (js_add (Finite 0) (round_to_double big)) (round_to_double big) = PosInf"
    by (simp add: r1 r2)
  then show ?thesis by (simp only: big_def)
qed

lemma average_of_overflowing_sum:
  assumes "js_add (js_add (Finite 0) (round_to_double x)) (round_to_double y) = PosInf"
  shows "averageRelationshipStrength (useClientStats d
      [example_client ''a'' (Some x) None, example_client ''b'' (Some y) None]) = PosInf"
  using assms
  by (simp add: useClientStats_def Let_def strength_or_zero_def example_client_def
      js_Math_round_def)

text \<open>
  Strengths outside the unit interval can make the running sum overflow: for two clients
  of strength \<open>2^1023\<close> the average is \<open>Infinity\<close>.
\<close>

lemma average_overflows:
  "averageRelationshipStrength (useClientStats example_dates
      [example_client ''a'' (Some (2 powi 1023)) None,
       example_client ''b'' (Some (2 powi 1023)) None]) = PosInf"
  by (rule average_of_overflowing_sum) (rule sum_overflows, rule refl)




section \<open>Cancellation in the job registry\<close>

lemma cancelled_view_finalize:
  "cancelled_view reg jid \<Longrightarrow> cancelled_view (finalize reg jid' outcome now) jid"
  by (auto simp: cancelled_view_def finalize_def split: option.splits Outcome.splits)

lemma cancelled_view_apply_call:
  "cancelled_view reg jid \<Longrightarrow> cancelled_view (apply_call reg c) jid"
proof (cases c)
  case (SubmitCall k p now)
  then show "cancelled_view reg jid \<Longrightarrow> ?thesis"
    by (auto simp: cancelled_view_def Submit_def split: option.splits)
next
  case (CancelCall jid' now)
  then show "cancelled_view reg jid \<Longrightarrow> ?thesis"
    by (auto simp: cancelled_view_def Cancel_def is_terminal_def split: option.splits)
next
  case (StartCall jid' now)
  then show "cancelled_view reg jid \<Longrightarrow> ?thesis"
    by (auto simp: cancelled_view_def start_job_def split: option.splits)
next
  case (FinalizeCall jid' outcome now)
  then show "cancelled_view reg jid \<Longrightarrow> ?thesis"
    by (simp add: cancelled_view_finalize)
next
  case (TimeoutCall jid' now)
  then show "cancelled_view reg jid \<Longrightarrow> ?thesis"
    by (auto simp: enforce_timeout_def cancelled_view_finalize split: option.splits)
next
  case (EvictCall now)
  then show "cancelled_view reg jid \<Longrightarrow> ?thesis"
    by (auto simp: cancelled_view_def Evict_def split: option.splits)
qed

lemma cancelled_view_apply_calls:
  "cancelled_view reg jid \<Longrightarrow> cancelled_view (apply_calls reg calls) jid"
  unfolding apply_calls_def
  by (induction calls arbitrary: reg) (simp_all add: cancelled_view_apply_call)

lemma cancelled_view_status:
  "cancelled_view reg jid \<Longrightarrow>
   GetStatus reg jid = Inl NotFound \<or>
   (\<exists>snap. GetStatus reg jid = Inr snap \<and> job_state snap = CANCELLED \<and> job_result snap = None)"
  by (auto simp: cancelled_view_def GetStatus_def snapshot_def is_terminal_def
      split: option.splits)

lemma cancelled_view_never_succeeded:
  "cancelled_view reg jid \<Longrightarrow> jobs reg jid = Some j' \<Longrightarrow> job_state j' \<noteq> SUCCEEDED"
  by (auto simp: cancelled_view_def)

lemma job_stays_apply_call:
  "jobs reg jid \<noteq> None \<Longrightarrow> \<not> is_evict c \<Longrightarrow> jobs (apply_call reg c) jid \<noteq> None"
  by (cases c)
    (auto simp: Submit_def Cancel_def start_job_def finalize_def enforce_timeout_def
      split: option.splits Outcome.splits if_splits)

lemma job_stays_apply_calls:
  "jobs reg jid \<noteq> None \<Longrightarrow> \<forall>c\<in>set calls. \<not> is_evict c \<Longrightarrow>
   jobs (apply_calls reg calls) jid \<noteq> None"
  unfolding apply_calls_def
proof (induction calls arbitrary: reg)
  case Nil
  then show ?case by simp
next
  case (Cons c calls)
  from Cons.prems have "jobs (apply_call reg c) jid \<noteq> None"
    by (simp add: job_stays_apply_call)
  moreover from Cons.prems have "\<forall>c\<in>set calls. \<not> is_evict c"
    by simp
  ultimately have "jobs (foldl apply_call (apply_call reg c) calls) jid \<noteq> None"
    by (rule Cons.IH)
  then show ?case by simp
qed

lemma not_found_iff: "GetStatus reg jid = Inl NotFound \<longleftrightarrow> jobs reg jid = None"
  by (simp add: GetStatus_def split: option.splits)

lemma running_registry_job:
  "jobs running_registry 0 =
     Some \<lparr> job_id = 0, job_kind = Analyze, job_state = RUNNING, submitted_at = 0,
            started_at = Some 1, completed_at = None, job_result = None, job_error = None,
            cancellation_flag = False \<rparr> \<and>
   next_id running_registry = 1"
  by (simp add: running_registry_def apply_calls_def empty_registry_def Submit_def
      well_formed_def start_job_def)

text \<open>A worker that reports success after the cancellation: the poll shows CANCELLED.\<close>

lemma success_after_cancel_example:
  "map_sum id (\<lambda>snap. (job_state snap, job_result snap))
     (GetStatus (apply_calls running_registry
        [CancelCall 0 2, FinalizeCall 0 (Succeeded (OtherPayload (JStr ''done''))) 3]) 0)
     = Inr (CANCELLED, None)"
  by (simp add: running_registry_def apply_calls_def empty_registry_def Submit_def
      well_formed_def start_job_def Cancel_def finalize_def GetStatus_def snapshot_def
      is_terminal_def)

text \<open>
  C6. When Cancel is accepted for a RUNNING job, then after any further calls to the
  registry (submissions, cancellations, worker starts and completions, timeouts) a poll
  of that job reports CANCELLED with no result, also when the worker reports a success
  afterwards; the job's stored state is never SUCCEEDED. Evictions among the calls can
  only turn the poll's answer into NotFound.
\<close>

theorem cancel_accepted_while_running_wins:
  assumes "jobs reg jid = Some j" and "job_state j = RUNNING" and "jid < next_id reg"
  shows "\<exists>reg'. Cancel reg jid now = Inr reg' \<and>
     (\<forall>calls. GetStatus (apply_calls reg' calls) jid = Inl NotFound \<or>
        (\<exists>snap. GetStatus (apply_calls reg' calls) jid = Inr snap \<and>
           job_state snap = CANCELLED \<and> job_result snap = None)) \<and>
     (\<forall>calls. (\<forall>c\<in>set calls. \<not> is_evict c) \<longrightarrow>
        (\<exists>snap. GetStatus (apply_calls reg' calls) jid = Inr snap \<and>
           job_state snap = CANCELLED \<and> job_result snap = None)) \<and>
     (\<forall>calls j'. jobs (apply_calls reg' calls) jid = Some j' \<longrightarrow> job_state j' \<noteq> SUCCEEDED)"
proof -
  define reg' where "reg' = reg\<lparr>jobs := (jobs reg)(jid \<mapsto> j\<lparr>cancellation_flag := True\<rparr>)\<rparr>"
  have ack: "Cancel reg jid now = Inr reg'"
    using assms by (simp add: Cancel_def reg'_def is_terminal_def)
  have "cancelled_view reg' jid"
    using assms by (simp add: cancelled_view_def reg'_def)
  then have inv: "cancelled_view (apply_calls reg' calls) jid" for calls
    by (rule cancelled_view_apply_calls)
  have polls: "GetStatus (apply_calls reg' calls) jid = Inl NotFound \<or>
        (\<exists>snap. GetStatus (apply_calls reg' calls) jid = Inr snap \<and>
           job_state snap = CANCELLED \<and> job_result snap = None)" for calls
    using inv by (rule cancelled_view_status)
  have "jobs reg' jid \<noteq> None"
    by (simp add: reg'_def)
  then have "jobs (apply_calls reg' calls) jid \<noteq> None"
    if "\<forall>c\<in>set calls. \<not> is_evict c" for calls
    using that by (rule job_stays_apply_calls)
  with polls have kept: "\<exists>snap. GetStatus (apply_calls reg' calls) jid = Inr snap \<and>
           job_state snap = CANCELLED \<and> job_result snap = None"
    if "\<forall>c\<in>set calls. \<not> is_evict c" for calls
    using that not_found_iff by blast
  from ack polls kept inv cancelled_view_never_succeeded show ?thesis
    by blast
qed

theorem cancel_accepted_while_running_wins_witness:
  "\<exists>reg'. Cancel running_registry 0 2 = Inr reg' \<and>
     (\<forall>calls. GetStatus (apply_calls reg' calls) 0 = Inl NotFound \<or>
        (\<exists>snap. GetStatus (apply_calls reg' calls) 0 = Inr snap \<and>
           job_state snap = CANCELLED \<and> job_result snap = None)) \<and>
     (\<forall>calls. (\<forall>c\<in>set calls. \<not> is_evict c) \<longrightarrow>
        (\<exists>snap. GetStatus (apply_calls reg' calls) 0 = Inr snap \<and>
           job_state snap = CANCELLED \<and> job_result snap = None)) \<and>
     (\<forall>calls j'. jobs (apply_calls reg' calls) 0 = Some j' \<longrightarrow> job_state j' \<noteq> SUCCEEDED)"
proof -
  have h1: "jobs running_registry 0 =
     Some \<lparr> job_id = 0, job_kind = Analyze, job_state = RUNNING, submitted_at = 0,
            started_at = Some 1, completed_at = None, job_result = None, job_error = None,
            cancellation_flag = False \<rparr>"
    using running_registry_job by blast
  have h2: "job_state \<lparr> job_id = 0, job_kind = Analyze, job_state = RUNNING, submitted_at = 0,
            started_at = Some 1, completed_at = None, job_result = None, job_error = None,
            cancellation_flag = False \<rparr> = RUNNING"
    by simp
  have h3: "0 < next_id running_registry"
    using running_registry_job by simp
  from cancel_accepted_while_running_wins [OF h1 h2 h3] show ?thesis .
qed

section \<open>Totality of response generation\<close>

lemma config_of_example: "config_of example_engine = example_config"
  unfolding example_engine_def
  by (rule make_engine_inverse) (simp add: quality_ok_def example_config_def)

lemma template_quality: "quality_ok (config_of engine) (template_text (config_of engine))"
  using config_of [of engine] by simp

lemma accepted_quality: "accepted cfg attempt = Some d \<Longrightarrow> quality_ok cfg (draft_text d)"
  by (auto simp: accepted_def split: option.splits if_splits)

lemma generate_draft_total:
  assumes "request_body req \<noteq> None"
  shows "\<exists>d. generate_draft engine retriever profile rules req = Inr d \<and>
     quality_ok (config_of engine) (draft_text d)"
  using assms template_quality [of engine]
  by (auto simp: generate_draft_def Let_def template_fallback_def
      split: option.splits dest: accepted_quality)

lemma generate_draft_fallback:
  assumes "request_body req \<noteq> None"
    and "usable_context (config_of engine) (retriever req) = []"
    and "first_matching_rule (config_of engine) rules req = None"
  shows "generate_draft engine retriever profile rules req = Inr (template_fallback engine)"
  using assms
  by (auto simp: generate_draft_def Let_def rag_strategy_def rule_strategy_def
      hybrid_strategy_def accepted_def split: option.splits)

lemma next_id_finalize: "next_id (finalize reg jid outcome now) = next_id reg"
  by (simp add: finalize_def split: option.splits Outcome.splits)

lemma jobs_finalize_other:
  "jid' \<noteq> jid \<Longrightarrow> jobs (finalize reg jid' outcome now) jid = jobs reg jid"
  by (simp add: finalize_def split: option.splits Outcome.splits)

lemma next_id_apply_call: "next_id reg \<le> next_id (apply_call reg c)"
  by (cases c)
    (simp_all add: Submit_def Cancel_def start_job_def next_id_finalize enforce_timeout_def
      Evict_def split: option.splits)


lemma generation_job_view_cong:
  "generation_job_view reg jid d \<Longrightarrow> jobs reg' jid = jobs reg jid \<Longrightarrow>
   next_id reg \<le> next_id reg' \<Longrightarrow> generation_job_view reg' jid d"
  by (simp add: generation_job_view_def)

lemma generation_job_view_finalize:
  assumes "generation_job_view reg jid d"
    and "jid' \<noteq> jid \<or> outcome = Succeeded (DraftPayload d) \<or> outcome = Failed Timeout"
  shows "generation_job_view (finalize reg jid' outcome now) jid d"
proof (cases "jid' = jid")
  case False
  with assms(1) show ?thesis
    by (simp add: generation_job_view_def next_id_finalize jobs_finalize_other)
next
  case True
  show ?thesis
  proof (cases "jobs reg jid")
    case None
    with assms(1) True show ?thesis by (simp add: finalize_def)
  next
    case (Some j)
    from assms(2) True have o: "outcome = Succeeded (DraftPayload d) \<or> outcome = Failed Timeout"
      by simp
    show ?thesis
    proof (cases "job_state j = RUNNING")
      case False
      with Some True assms(1) show ?thesis by (simp add: finalize_def)
    next
      case running: True
      from assms(1) Some running have none: "job_result j = None" "job_error j = None"
        and lt: "jid < next_id reg"
        by (simp_all add: generation_job_view_def)
      from o show ?thesis
      proof
        assume "outcome = Succeeded (DraftPayload d)"
        with Some True running none lt show ?thesis
          by (simp add: finalize_def generation_job_view_def)
      next
        assume "outcome = Failed Timeout"
        with Some True running none lt show ?thesis
          by (simp add: finalize_def generation_job_view_def)
      qed
    qed
  qed
qed


lemma generation_job_view_apply_call:
  assumes "generation_job_view reg jid d" and "reports jid (Succeeded (DraftPayload d)) c"
  shows "generation_job_view (apply_call reg c) jid d"
proof (cases c)
  case (SubmitCall k p now)
  from assms(1) have "jid < next_id reg" by (simp add: generation_job_view_def)
  then have "jobs (apply_call reg c) jid = jobs reg jid"
    using SubmitCall by (simp add: Submit_def)
  with assms(1) show ?thesis
    by (rule generation_job_view_cong) (rule next_id_apply_call)
next
  case (CancelCall jid' now)
  show ?thesis
  proof (cases "jobs reg jid'")
    case None
    with CancelCall assms(1) show ?thesis by (simp add: Cancel_def)
  next
    case (Some j)
    show ?thesis
    proof (cases "jid' = jid")
      case False
      then have "jobs (apply_call reg c) jid = jobs reg jid"
        using CancelCall Some by (simp add: Cancel_def)
      with assms(1) show ?thesis
        by (rule generation_job_view_cong) (rule next_id_apply_call)
    next
      case True
      with CancelCall Some assms(1) show ?thesis
        by (cases "job_state j") (simp_all add: Cancel_def is_terminal_def generation_job_view_def)
    qed
  qed
next
  case (StartCall jid' now)
  show ?thesis
  proof (cases "jobs reg jid'")
    case None
    with StartCall assms(1) show ?thesis by (simp add: start_job_def)
  next
    case (Some j)
    show ?thesis
    proof (cases "jid' = jid")
      case False
      then have "jobs (apply_call reg c) jid = jobs reg jid"
        using StartCall Some by (simp add: start_job_def)
      with assms(1) show ?thesis
        by (rule generation_job_view_cong) (rule next_id_apply_call)
    next
      case True
      with StartCall Some assms(1) show ?thesis
        by (cases "job_state j") (simp_all add: start_job_def generation_job_view_def)
    qed
  qed
next
  case (FinalizeCall jid' outcome now)
  with assms show ?thesis
    by (simp add: generation_job_view_finalize)
next
  case (TimeoutCall jid' now)
  have "generation_job_view (finalize reg jid' (Failed Timeout) now) jid d"
    using assms(1) by (rule generation_job_view_finalize) simp
  with TimeoutCall assms(1) show ?thesis
    by (simp add: enforce_timeout_def split: option.splits)
next
  case (EvictCall now)
  with assms(1) show ?thesis
    by (cases "jobs reg jid") (simp_all add: generation_job_view_def Evict_def split: option.splits)
qed

lemma generation_job_view_apply_calls:
  "generation_job_view reg jid d \<Longrightarrow> \<forall>c\<in>set calls. reports jid (Succeeded (DraftPayload d)) c \<Longrightarrow>
   generation_job_view (apply_calls reg calls) jid d"
  unfolding apply_calls_def
proof (induction calls arbitrary: reg)
  case Nil
  then show ?case by simp
next
  case (Cons c calls)
  from Cons.prems have "generation_job_view (apply_call reg c) jid d"
    by (simp add: generation_job_view_apply_call)
  moreover from Cons.prems have "\<forall>c\<in>set calls. reports jid (Succeeded (DraftPayload d)) c"
    by simp
  ultimately have "generation_job_view (foldl apply_call (apply_call reg c) calls) jid d"
    by (rule Cons.IH)
  then show ?case by simp
qed

lemma job_at_cong:
  "job_at reg jid d A \<Longrightarrow> jobs reg' jid = jobs reg jid \<Longrightarrow> job_at reg' jid d A"
  by (simp add: job_at_def)

lemma job_at_start:
  assumes "job_at reg jid d A" and "PENDING \<in> set A \<longrightarrow> RUNNING \<in> set A"
  shows "job_at (start_job reg jid now) jid d A"
proof (cases "jobs reg jid")
  case None
  with assms(1) show ?thesis by (simp add: job_at_def)
next
  case (Some j)
  with assms show ?thesis
    by (cases "job_state j") (simp_all add: start_job_def job_at_def)
qed

lemma job_at_started:
  assumes "job_at reg jid d [PENDING, RUNNING, SUCCEEDED]"
  shows "job_at (start_job reg jid now) jid d [RUNNING, SUCCEEDED]"
proof (cases "jobs reg jid")
  case None
  with assms(1) show ?thesis by (simp add: job_at_def)
next
  case (Some j)
  with assms show ?thesis
    by (cases "job_state j") (simp_all add: start_job_def job_at_def)
qed

lemma job_at_finalize:
  assumes "job_at reg jid d A" and "RUNNING \<in> set A \<longrightarrow> SUCCEEDED \<in> set A"
  shows "job_at (finalize reg jid (Succeeded (DraftPayload d)) now) jid d A"
proof (cases "jobs reg jid")
  case None
  with assms(1) show ?thesis by (simp add: job_at_def)
next
  case (Some j)
  with assms show ?thesis
    by (cases "job_state j") (simp_all add: finalize_def job_at_def)
qed

lemma job_at_finalized:
  assumes "job_at reg jid d [RUNNING, SUCCEEDED]"
  shows "job_at (finalize reg jid (Succeeded (DraftPayload d)) now) jid d [SUCCEEDED]"
proof (cases "jobs reg jid")
  case None
  with assms(1) show ?thesis by (simp add: job_at_def)
next
  case (Some j)
  with assms show ?thesis
    by (cases "job_state j") (simp_all add: finalize_def job_at_def)
qed

lemma job_at_apply_call:
  assumes "job_at reg jid d A" and "jid < next_id reg"
    and "undisturbed jid c" and "reports jid (Succeeded (DraftPayload d)) c"
    and "PENDING \<in> set A \<longrightarrow> RUNNING \<in> set A" and "RUNNING \<in> set A \<longrightarrow> SUCCEEDED \<in> set A"
  shows "job_at (apply_call reg c) jid d A"
proof (cases c)
  case (SubmitCall k p now)
  from assms(2) have "jobs (apply_call reg c) jid = jobs reg jid"
    using SubmitCall by (simp add: Submit_def)
  with assms(1) show ?thesis by (rule job_at_cong)
next
  case (CancelCall jid' now)
  with assms(3) have "jid' \<noteq> jid" by simp
  then have "jobs (apply_call reg c) jid = jobs reg jid"
    using CancelCall by (simp add: Cancel_def split: option.splits)
  with assms(1) show ?thesis by (rule job_at_cong)
next
  case (StartCall jid' now)
  show ?thesis
  proof (cases "jid' = jid")
    case False
    then have "jobs (apply_call reg c) jid = jobs reg jid"
      using StartCall by (simp add: start_job_def split: option.splits)
    with assms(1) show ?thesis by (rule job_at_cong)
  next
    case True
    with StartCall assms(1,5) show ?thesis by (simp add: job_at_start)
  qed
next
  case (FinalizeCall jid' outcome now)
  show ?thesis
  proof (cases "jid' = jid")
    case False
    then have "jobs (apply_call reg c) jid = jobs reg jid"
      using FinalizeCall by (simp add: jobs_finalize_other)
    with assms(1) show ?thesis by (rule job_at_cong)
  next
    case True
    with FinalizeCall assms(4) have "outcome = Succeeded (DraftPayload d)" by simp
    with True FinalizeCall assms(1,6) show ?thesis by (simp add: job_at_finalize)
  qed
next
  case (TimeoutCall jid' now)
  with assms(3) have "jid' \<noteq> jid" by simp
  then have "jobs (apply_call reg c) jid = jobs reg jid"
    using TimeoutCall by (simp add: enforce_timeout_def jobs_finalize_other split: option.splits)
  with assms(1) show ?thesis by (rule job_at_cong)
next
  case (EvictCall now)
  with assms(3) show ?thesis by simp
qed

lemma job_at_apply_calls:
  assumes "\<forall>c\<in>set calls. undisturbed jid c \<and> reports jid (Succeeded (DraftPayload d)) c"
    and "PENDING \<in> set A \<longrightarrow> RUNNING \<in> set A" and "RUNNING \<in> set A \<longrightarrow> SUCCEEDED \<in> set A"
    and "job_at reg jid d A" and "jid < next_id reg"
  shows "job_at (apply_calls reg calls) jid d A \<and> jid < next_id (apply_calls reg calls)"
  using assms(1,4,5) unfolding apply_calls_def
proof (induction calls arbitrary: reg)
  case Nil
  then show ?case by simp
next
  case (Cons c calls)
  from Cons.prems have c: "undisturbed jid c" "reports jid (Succeeded (DraftPayload d)) c"
    and rest: "\<forall>c\<in>set calls. undisturbed jid c \<and> reports jid (Succeeded (DraftPayload d)) c"
    by simp_all
  have "job_at (apply_call reg c) jid d A"
    using Cons.prems(2,3) c assms(2,3) by (rule job_at_apply_call)
  moreover have "jid < next_id (apply_call reg c)"
    using Cons.prems(3) next_id_apply_call [of reg c] by simp
  ultimately have "job_at (foldl apply_call (apply_call reg c) calls) jid d A \<and>
      jid < next_id (foldl apply_call (apply_call reg c) calls)"
    using rest Cons.IH by blast
  then show ?case by simp
qed

lemma apply_calls_append:
  "apply_calls reg (xs @ ys) = apply_calls (apply_calls reg xs) ys"
  by (simp add: apply_calls_def)

lemma apply_calls_Cons: "apply_calls reg (c # calls) = apply_calls (apply_call reg c) calls"
  by (simp add: apply_calls_def)

lemma started_and_finished:
  assumes "job_at reg jid d [PENDING, RUNNING, SUCCEEDED]" and "jid < next_id reg"
    and "\<forall>c\<in>set (pre @ mid @ post).
           undisturbed jid c \<and> reports jid (Succeeded (DraftPayload d)) c"
  shows "job_at (apply_calls reg
           (pre @ StartCall jid t1 # mid @ FinalizeCall jid (Succeeded (DraftPayload d)) t2 # post))
           jid d [SUCCEEDED]"
proof -
  let ?ok = "\<lambda>c. undisturbed jid c \<and> reports jid (Succeeded (DraftPayload d)) c"
  from assms(3) have pre: "\<forall>c\<in>set pre. ?ok c" and mid: "\<forall>c\<in>set mid. ?ok c"
    and post: "\<forall>c\<in>set post. ?ok c"
    by simp_all
  define r1 where "r1 = apply_calls reg pre"
  define r2 where "r2 = start_job r1 jid t1"
  define r3 where "r3 = apply_calls r2 mid"
  define r4 where "r4 = finalize r3 jid (Succeeded (DraftPayload d)) t2"
  have a1: "job_at r1 jid d [PENDING, RUNNING, SUCCEEDED] \<and> jid < next_id r1"
    unfolding r1_def using pre _ _ assms(1,2) by (rule job_at_apply_calls) simp_all
  then have a2: "job_at r2 jid d [RUNNING, SUCCEEDED]"
    unfolding r2_def by (simp add: job_at_started)
  have n2: "jid < next_id r2"
    using a1 next_id_apply_call [of r1 "StartCall jid t1"] by (simp add: r2_def)
  have a3: "job_at r3 jid d [RUNNING, SUCCEEDED] \<and> jid < next_id r3"
    unfolding r3_def using mid _ _ a2 n2 by (rule job_at_apply_calls) simp_all
  then have a4: "job_at r4 jid d [SUCCEEDED]"
    unfolding r4_def by (simp add: job_at_finalized)
  have n4: "jid < next_id r4"
    using a3 by (simp add: r4_def next_id_finalize)
  have "job_at (apply_calls r4 post) jid d [SUCCEEDED] \<and> jid < next_id (apply_calls r4 post)"
    using post _ _ a4 n4 by (rule job_at_apply_calls) simp_all
  moreover have "apply_calls reg
      (pre @ StartCall jid t1 # mid @ FinalizeCall jid (Succeeded (DraftPayload d)) t2 # post)
      = apply_calls r4 post"
    by (simp add: apply_calls_append apply_calls_Cons r1_def r2_def r3_def r4_def)
  ultimately show ?thesis by simp
qed

text \<open>
  A valid request whose job is cancelled while the worker runs: the worker's draft is
  discarded and the terminal job is CANCELLED with neither a draft nor an error.
\<close>

theorem cancelled_generation_has_no_draft:
  "well_formed GenerateResponse (GenerationPayload example_request) \<and>
   GetStatus (apply_calls empty_registry
      [SubmitCall GenerateResponse (GenerationPayload example_request) 0, StartCall 0 1,
       CancelCall 0 2,
       FinalizeCall 0
         (execute_generation example_engine unavailable_retriever None [] example_request) 3]) 0
     = Inr \<lparr> job_id = 0, job_kind = GenerateResponse, job_state = CANCELLED, submitted_at = 0,
             started_at = Some 1, completed_at = Some 3, job_result = None, job_error = None,
             cancellation_flag = True \<rparr>"
  by (simp add: apply_calls_def empty_registry_def Submit_def well_formed_def example_request_def
      start_job_def Cancel_def finalize_def GetStatus_def snapshot_def is_terminal_def)

text \<open>
  C4. For every GenerationRequest with a body the engine returns a draft of non-empty
  text that passes quality validation, whatever the retriever answers and whatever rules
  there are; without usable context and without a matching rule it is the Template draft
  with its fixed confidence. Submit registers the job, and after any further registry
  calls in which the worker reports the engine's outcome the job is evicted, or not yet
  terminal with neither result nor error, or SUCCEEDED with that draft, or FAILED by the
  timeout, or CANCELLED with neither draft nor error. When the job is not cancelled, not
  timed out and not evicted, and the worker starts and finalizes it, the poll reports
  SUCCEEDED with the draft.
\<close>

theorem generation_job_outcomes:
  assumes "request_body req \<noteq> None"
  shows "\<exists>d reg1.
     generate_draft engine retriever profile rules req = Inr d \<and>
     draft_text d \<noteq> [] \<and> quality_ok (config_of engine) (draft_text d) \<and>
     (usable_context (config_of engine) (retriever req) = [] \<and>
      first_matching_rule (config_of engine) rules req = None \<longrightarrow>
        d = template_fallback engine \<and> strategy d = Template \<and>
        confidence d = template_confidence (config_of engine)) \<and>
     Submit reg GenerateResponse (GenerationPayload req) now = Inr (next_id reg, reg1) \<and>
     (\<forall>calls.
        (\<forall>c\<in>set calls.
           reports (next_id reg) (execute_generation engine retriever profile rules req) c) \<longrightarrow>
        generation_job_view (apply_calls reg1 calls) (next_id reg) d) \<and>
     (\<forall>pre mid post t1 t2.
        (\<forall>c\<in>set (pre @ mid @ post).
           undisturbed (next_id reg) c \<and>
           reports (next_id reg) (execute_generation engine retriever profile rules req) c) \<longrightarrow>
        (\<exists>snap.
           GetStatus (apply_calls reg1
             (pre @ StartCall (next_id reg) t1 # mid @
              FinalizeCall (next_id reg)
                (execute_generation engine retriever profile rules req) t2 # post))
             (next_id reg) = Inr snap \<and>
           job_state snap = SUCCEEDED \<and> job_result snap = Some (DraftPayload d) \<and>
           job_error snap = None))"
proof -
  from generate_draft_total [OF assms] obtain d where
    d: "generate_draft engine retriever profile rules req = Inr d"
    and q: "quality_ok (config_of engine) (draft_text d)"
    by blast
  define jid where "jid = next_id reg"
  define reg1 where "reg1 = reg\<lparr>jobs := (jobs reg)(jid \<mapsto>
      \<lparr> job_id = jid, job_kind = GenerateResponse, job_state = PENDING,
        submitted_at = now, started_at = None, completed_at = None,
        job_result = None, job_error = None, cancellation_flag = False \<rparr>),
      next_id := Suc jid\<rparr>"
  have out: "execute_generation engine retriever profile rules req = Succeeded (DraftPayload d)"
    using d by (simp add: execute_generation_def)
  have nonempty: "draft_text d \<noteq> []"
    using q by (simp add: quality_ok_def)
  have fallback: "d = template_fallback engine \<and> strategy d = Template \<and>
      confidence d = template_confidence (config_of engine)"
    if "usable_context (config_of engine) (retriever req) = [] \<and>
      first_matching_rule (config_of engine) rules req = None"
  proof -
    from that have "generate_draft engine retriever profile rules req
        = Inr (template_fallback engine)"
      using assms by (simp add: generate_draft_fallback)
    with d have "d = template_fallback engine" by simp
    then show ?thesis by (simp add: template_fallback_def)
  qed
  have sub: "Submit reg GenerateResponse (GenerationPayload req) now = Inr (next_id reg, reg1)"
    using assms by (simp add: Submit_def well_formed_def reg1_def jid_def)
  have view1: "generation_job_view reg1 jid d"
    by (simp add: generation_job_view_def reg1_def)
  have at1: "job_at reg1 jid d [PENDING, RUNNING, SUCCEEDED]" and lt1: "jid < next_id reg1"
    by (simp_all add: job_at_def reg1_def)
  have safe: "generation_job_view (apply_calls reg1 calls) jid d"
    if "\<forall>c\<in>set calls. reports jid (Succeeded (DraftPayload d)) c" for calls
    using view1 that by (rule generation_job_view_apply_calls)
  have live: "\<exists>snap.
      GetStatus (apply_calls reg1
        (pre @ StartCall jid t1 # mid @ FinalizeCall jid (Succeeded (DraftPayload d)) t2 # post))
        jid = Inr snap \<and>
      job_state snap = SUCCEEDED \<and> job_result snap = Some (DraftPayload d) \<and>
      job_error snap = None"
    if "\<forall>c\<in>set (pre @ mid @ post).
          undisturbed jid c \<and> reports jid (Succeeded (DraftPayload d)) c"
    for pre mid post t1 t2
  proof -
    from at1 lt1 that have "job_at (apply_calls reg1
        (pre @ StartCall jid t1 # mid @ FinalizeCall jid (Succeeded (DraftPayload d)) t2 # post))
        jid d [SUCCEEDED]"
      by (rule started_and_finished)
    then show ?thesis
      by (auto simp: job_at_def GetStatus_def snapshot_def split: option.splits)
  qed
  from d nonempty q fallback sub safe live show ?thesis
    unfolding out jid_def by blast
qed

theorem generation_job_outcomes_witness:
  "generate_draft example_engine unavailable_retriever None [] example_request
     = Inr (template_fallback example_engine) \<and>
   draft_text (template_fallback example_engine)
     = ''Thank you for your message. I will get back to you shortly.'' \<and>
   (\<exists>snap.
      GetStatus (apply_calls empty_registry
        [SubmitCall GenerateResponse (GenerationPayload example_request) 0, StartCall 0 1,
         FinalizeCall 0
           (execute_generation example_engine unavailable_retriever None [] example_request) 2]) 0
        = Inr snap \<and>
      job_state snap = SUCCEEDED \<and>
      job_result snap = Some (DraftPayload (template_fallback example_engine)))"
proof -
  have h: "request_body example_request \<noteq> None"
    by (simp add: example_request_def)
  let ?out = "execute_generation example_engine unavailable_retriever None [] example_request"
  from generation_job_outcomes [where engine = example_engine
      and retriever = unavailable_retriever and profile = None and rules = "[]"
      and reg = empty_registry and now = 0, OF h]
  obtain d reg1 where
    d: "generate_draft example_engine unavailable_retriever None [] example_request = Inr d"
    and fb: "usable_context (config_of example_engine) (unavailable_retriever example_request) = [] \<and>
      first_matching_rule (config_of example_engine) [] example_request = None \<longrightarrow>
        d = template_fallback example_engine \<and> strategy d = Template \<and>
        confidence d = template_confidence (config_of example_engine)"
    and sub: "Submit empty_registry GenerateResponse (GenerationPayload example_request) 0
        = Inr (next_id empty_registry, reg1)"
    and live: "\<forall>pre mid post t1 t2.
        (\<forall>c\<in>set (pre @ mid @ post).
           undisturbed (next_id empty_registry) c \<and> reports (next_id empty_registry) ?out c) \<longrightarrow>
        (\<exists>snap.
           GetStatus (apply_calls reg1
             (pre @ StartCall (next_id empty_registry) t1 # mid @
              FinalizeCall (next_id empty_registry) ?out t2 # post))
             (next_id empty_registry) = Inr snap \<and>
           job_state snap = SUCCEEDED \<and> job_result snap = Some (DraftPayload d) \<and>
           job_error snap = None)"
    by blast
  have d_eq: "d = template_fallback example_engine"
    using fb by (simp add: usable_context_def unavailable_retriever_def first_matching_rule_def)
  have n0: "next_id empty_registry = 0"
    by (simp add: empty_registry_def)
  have tmpl: "draft_text (template_fallback example_engine)
     = ''Thank you for your message. I will get back to you shortly.''"
    by (simp add: template_fallback_def config_of_example example_config_def)
  from live [rule_format, of "[]" "[]" "[]" 1 2]
  obtain snap where
    "GetStatus (apply_calls reg1 [StartCall 0 1, FinalizeCall 0 ?out 2]) 0 = Inr snap"
    "job_state snap = SUCCEEDED" "job_result snap = Some (DraftPayload d)"
    unfolding n0 by auto
  moreover have "apply_calls empty_registry
        [SubmitCall GenerateResponse (GenerationPayload example_request) 0, StartCall 0 1,
         FinalizeCall 0 ?out 2]
      = apply_calls reg1 [StartCall 0 1, FinalizeCall 0 ?out 2]"
    using sub by (simp add: apply_calls_def)
  ultimately show ?thesis
    using d d_eq tmpl by auto
qed

end
